theory Spec2Isabelle
  imports Complex_Main
begin

section \<open>Strings\<close>

text \<open>
  A JavaScript string is a sequence of UTF-16 code units.  A code unit is modelled by its
  number; the literals of \<^verbatim>\<open>index.js\<close> that are plain ASCII are written with \<open>asc\<close>.
\<close>

type_synonym jsstring = "nat list"

definition asc :: "string \<Rightarrow> jsstring" where
  "asc s = map of_char s"

definition is_upper_ascii :: "nat \<Rightarrow> bool" where
  "is_upper_ascii c = (65 \<le> c \<and> c \<le> 90)"

definition is_lower_ascii :: "nat \<Rightarrow> bool" where
  "is_lower_ascii c = (97 \<le> c \<and> c \<le> 122)"

definition is_digit :: "nat \<Rightarrow> bool" where
  "is_digit c = (48 \<le> c \<and> c \<le> 57)"

text \<open>The class \<^verbatim>\<open>\w\<close> of a regular expression without the unicode flag: \<^verbatim>\<open>[A-Za-z0-9_]\<close>.\<close>

definition is_word_char :: "nat \<Rightarrow> bool" where
  "is_word_char c = (is_upper_ascii c \<or> is_lower_ascii c \<or> is_digit c \<or> c = 95)"

text \<open>
  The class \<^verbatim>\<open>\s\<close>, which is also what \<^verbatim>\<open>trim\<close> strips: the WhiteSpace and LineTerminator
  code points of ECMAScript (TAB, LF, VT, FF, CR, SP, NBSP, U+1680, U+2000..U+200A, U+2028,
  U+2029, U+202F, U+205F, U+3000, U+FEFF).
\<close>

definition is_white_space :: "nat \<Rightarrow> bool" where
  "is_white_space c =
     ((9 \<le> c \<and> c \<le> 13) \<or> c = 32 \<or> c = 160 \<or> c = 5760 \<or> (8192 \<le> c \<and> c \<le> 8202)
      \<or> c = 8232 \<or> c = 8233 \<or> c = 8239 \<or> c = 8287 \<or> c = 12288 \<or> c = 65279)"

definition trim :: "jsstring \<Rightarrow> jsstring" where
  "trim s = rev (dropWhile is_white_space (rev (dropWhile is_white_space s)))"

subsection \<open>\<^verbatim>\<open>String.prototype.toLowerCase\<close>\<close>

text \<open>
  \<^verbatim>\<open>toLowerCase\<close> reads the string as code points (a high surrogate followed by a low one is
  one code point, any other code unit stands for itself), maps every code point to its
  lowercase mapping and writes the result back as code units.  On ASCII the mapping sends
  \<^verbatim>\<open>A-Z\<close> to \<^verbatim>\<open>a-z\<close> and fixes everything else.  Beyond ASCII it is the table of the Unicode
  Character Database (with its context-sensitive entry for the final sigma), which is not part
  of the repository: it is the parameter \<open>U\<close>, given the code points before, the code point
  itself and the code points after.
\<close>

type_synonym lowercase_mapping = "nat list \<Rightarrow> nat \<Rightarrow> nat list \<Rightarrow> nat list"

definition is_high_surrogate :: "nat \<Rightarrow> bool" where
  "is_high_surrogate c = (55296 \<le> c \<and> c \<le> 56319)"

definition is_low_surrogate :: "nat \<Rightarrow> bool" where
  "is_low_surrogate c = (56320 \<le> c \<and> c \<le> 57343)"

fun StringToCodePoints :: "jsstring \<Rightarrow> nat list" where
  "StringToCodePoints [] = []"
| "StringToCodePoints [c] = [c]"
| "StringToCodePoints (c # d # cs) =
     (if is_high_surrogate c \<and> is_low_surrogate d
      then (65536 + (c - 55296) * 1024 + (d - 56320)) # StringToCodePoints cs
      else c # StringToCodePoints (d # cs))"

definition UTF16EncodeCodePoint :: "nat \<Rightarrow> jsstring" where
  "UTF16EncodeCodePoint cp =
     (if cp < 65536 then [cp]
      else [55296 + (cp - 65536) div 1024, 56320 + (cp - 65536) mod 1024])"

definition CodePointsToString :: "nat list \<Rightarrow> jsstring" where
  "CodePointsToString cps = concat (map UTF16EncodeCodePoint cps)"

definition lower_ascii :: "nat \<Rightarrow> nat" where
  "lower_ascii c = (if is_upper_ascii c then c + 32 else c)"

fun toLowercase :: "lowercase_mapping \<Rightarrow> nat list \<Rightarrow> nat list \<Rightarrow> nat list" where
  "toLowercase U prev [] = []"
| "toLowercase U prev (c # rest) =
     (if c < 128 then [lower_ascii c] else U prev c rest)
     @ toLowercase U (prev @ [c]) rest"

definition toLowerCase :: "lowercase_mapping \<Rightarrow> jsstring \<Rightarrow> jsstring" where
  "toLowerCase U s = CodePointsToString (toLowercase U [] (StringToCodePoints s))"

text \<open>
  What the proofs below ask of the table: no lowercase mapping of a code point beyond ASCII
  contains one of \<^verbatim>\<open>A-Z\<close>.
\<close>

definition lowercase_table_ok :: "lowercase_mapping \<Rightarrow> bool" where
  "lowercase_table_ok U = (\<forall>prev c rest. 128 \<le> c \<longrightarrow> (\<forall>x \<in> set (U prev c rest). \<not> is_upper_ascii x))"

text \<open>
  A fragment of the Unicode table, used to run the definitions: the Latin-1 capitals, the
  capital I with dot above (two code points) and the Kelvin sign (which becomes ASCII \<^verbatim>\<open>k\<close>).
\<close>

definition sample_table :: lowercase_mapping where
  "sample_table prev c rest =
     (if (192 \<le> c \<and> c \<le> 222 \<and> c \<noteq> 215) then [c + 32]
      else if c = 304 then [105, 775]
      else if c = 8490 then [107]
      else [c])"

subsection \<open>The slug generator\<close>

text \<open>
  \<^verbatim>\<open>const generateSlug = (title) =>
     title.toLowerCase().replace(/\s+/g, '-').replace(/[^\w-]+/g, '');\<close>

  The first \<^verbatim>\<open>replace\<close> puts one hyphen for every maximal run of white space, the second
  deletes every maximal run of code units that are neither word characters nor hyphens.
\<close>

function replace_space_runs :: "jsstring \<Rightarrow> jsstring" where
  "replace_space_runs [] = []"
| "replace_space_runs (c # cs) =
     (if is_white_space c then 45 # replace_space_runs (dropWhile is_white_space cs)
      else c # replace_space_runs cs)"
  by pat_completeness auto
termination
  by (relation "measure length") (auto simp: less_Suc_eq_le length_dropWhile_le)

definition remove_non_word :: "jsstring \<Rightarrow> jsstring" where
  "remove_non_word s = filter (\<lambda>c. is_word_char c \<or> c = 45) s"

definition generateSlug :: "lowercase_mapping \<Rightarrow> jsstring \<Rightarrow> jsstring" where
  "generateSlug U title = remove_non_word (replace_space_runs (toLowerCase U title))"

text \<open>The code units a slug is made of: \<^verbatim>\<open>a-z\<close>, \<^verbatim>\<open>0-9\<close>, the underscore and the hyphen.\<close>

definition is_slug_char :: "nat \<Rightarrow> bool" where
  "is_slug_char c = (is_lower_ascii c \<or> is_digit c \<or> c = 95 \<or> c = 45)"

section \<open>Prompts and explanations\<close>

text \<open>The constant \<^verbatim>\<open>promptList\<close>, in the order of the source.\<close>

definition promptList :: "jsstring list" where
  "promptList = map asc
     [''Write a JavaScript function to reverse a string.'',
      ''Generate a Python script that reads a CSV file and prints the contents.'',
      ''Create an HTML page with a simple form and a submit button.'',
      ''Write a CSS rule that creates a hover effect for buttons.'',
      ''Generate a JavaScript snippet for handling form validation.'',
      ''Write a Python script that calculates the factorial of a number.'',
      ''Create a basic Node.js Express server with one route.'',
      ''Generate a JavaScript code snippet for async/await function handling.'',
      ''Write a function in JavaScript to calculate Fibonacci numbers.'',
      ''Create a batch script to automate file backups.'']"

text \<open>
  What reading a property of the object literal \<^verbatim>\<open>explanationMapping\<close> can give: one of its
  own strings, \<^verbatim>\<open>undefined\<close>, or a member that the literal inherits from
  \<^verbatim>\<open>Object.prototype\<close> (a built-in function, named here, or, for \<^verbatim>\<open>__proto__\<close>, the
  prototype object itself).
\<close>

datatype jsval = Undefined | Str jsstring | NativeFunction jsstring | ObjectPrototype

text \<open>The own properties of \<^verbatim>\<open>explanationMapping\<close>, in the order of the source.\<close>

definition explanationMapping :: "(jsstring \<times> jsstring) list" where
  "explanationMapping = map (\<lambda>(k, v). (asc k, asc v))
     [(''Write a JavaScript function to reverse a string.'', ''reverse a string''),
      (''Generate a Python script that reads a CSV file and prints the contents.'',
       ''read and print contents of a CSV file''),
      (''Create an HTML page with a simple form and a submit button.'',
       ''create a form for user input''),
      (''Write a CSS rule that creates a hover effect for buttons.'',
       ''add hover effects to buttons''),
      (''Generate a JavaScript snippet for handling form validation.'',
       ''validate user input in a form''),
      (''Write a Python script that calculates the factorial of a number.'',
       ''calculate the factorial of a number''),
      (''Create a basic Node.js Express server with one route.'',
       ''set up a basic web server''),
      (''Generate a JavaScript code snippet for async/await function handling.'',
       ''handle asynchronous operations in JavaScript''),
      (''Write a function in JavaScript to calculate Fibonacci numbers.'',
       ''calculate Fibonacci numbers''),
      (''Create a batch script to automate file backups.'',
       ''automate file backups using a batch script'')]"

text \<open>
  The properties of \<^verbatim>\<open>Object.prototype\<close>, which every object literal inherits:
  \<^verbatim>\<open>constructor\<close> is the function \<^verbatim>\<open>Object\<close>, \<^verbatim>\<open>__proto__\<close> is an accessor that yields the
  prototype of the object it is read from, the others are the functions of their own name.
\<close>

definition Object_prototype_methods :: "jsstring list" where
  "Object_prototype_methods = map asc
     [''hasOwnProperty'', ''isPrototypeOf'', ''propertyIsEnumerable'', ''toLocaleString'',
      ''toString'', ''valueOf'', ''__defineGetter__'', ''__defineSetter__'',
      ''__lookupGetter__'', ''__lookupSetter__'']"

definition Object_prototype :: "jsstring \<Rightarrow> jsval" where
  "Object_prototype key =
     (if key = asc ''constructor'' then NativeFunction (asc ''Object'')
      else if key = asc ''__proto__'' then ObjectPrototype
      else if key \<in> set Object_prototype_methods then NativeFunction key
      else Undefined)"

text \<open>\<^verbatim>\<open>obj[key]\<close> on an object literal: the own property if there is one, else the inherited one.\<close>

definition get_property :: "(jsstring \<times> jsstring) list \<Rightarrow> jsstring \<Rightarrow> jsval" where
  "get_property own key =
     (case map_of own key of Some v \<Rightarrow> Str v | None \<Rightarrow> Object_prototype key)"

text \<open>Truthiness, and \<^verbatim>\<open>a || b\<close>: the empty string and \<^verbatim>\<open>undefined\<close> are falsy.\<close>

fun truthy :: "jsval \<Rightarrow> bool" where
  "truthy Undefined = False"
| "truthy (Str s) = (s \<noteq> [])"
| "truthy (NativeFunction f) = True"
| "truthy ObjectPrototype = True"

definition js_or :: "jsval \<Rightarrow> jsval \<Rightarrow> jsval" where
  "js_or a b = (if truthy a then a else b)"

definition fallbackExplanation :: jsstring where
  "fallbackExplanation = asc ''execute a programming task''"

text \<open>
  \<^verbatim>\<open>function generateProblemExplanation(prompt) {
    const explanationMapping = { ... };
    return explanationMapping[prompt] || "execute a programming task";
  }\<close>
\<close>

definition generateProblemExplanation :: "jsstring \<Rightarrow> jsval" where
  "generateProblemExplanation prompt =
     js_or (get_property explanationMapping prompt) (Str fallbackExplanation)"

text \<open>
  The string a template literal puts for a value (\<^verbatim>\<open>ToString\<close>); a built-in function prints
  as \<^verbatim>\<open>function name() { [native code] }\<close>.
\<close>

fun ToString :: "jsval \<Rightarrow> jsstring" where
  "ToString Undefined = asc ''undefined''"
| "ToString (Str s) = s"
| "ToString (NativeFunction f) = asc ''function '' @ f @ asc ''() { [native code] }''"
| "ToString ObjectPrototype = asc ''[object Object]''"

section \<open>Numbers\<close>

text \<open>
  A JavaScript number is an IEEE 754 double; a finite one is modelled by the real number it
  denotes.  The product of two doubles is the exact product rounded to the nearest double,
  ties to the even significand: \<open>round_double\<close>, for arguments below \<open>2\<^sup>1\<^sup>0\<^sup>2\<^sup>4\<close> in absolute
  value (no overflow).  A double has 53 significant bits, and the exponent of its last bit
  is at least \<open>-1074\<close>.
\<close>

definition round_ties_even :: "real \<Rightarrow> int" where
  "round_ties_even y =
     (let f = \<lfloor>y\<rfloor>; d = y - of_int f
      in if d < 1 / 2 then f else if 1 / 2 < d then f + 1 else if even f then f else f + 1)"

definition last_bit_exponent :: "real \<Rightarrow> int" where
  "last_bit_exponent x = max \<lfloor>log 2 \<bar>x\<bar>\<rfloor> (- 1022) - 52"

definition round_double :: "real \<Rightarrow> real" where
  "round_double x =
     (if x = 0 then 0
      else of_int (round_ties_even (x / 2 powr of_int (last_bit_exponent x)))
             * 2 powr of_int (last_bit_exponent x))"

definition is_double :: "real \<Rightarrow> bool" where
  "is_double x = (round_double x = x)"

definition times_double :: "real \<Rightarrow> real \<Rightarrow> real" where
  "times_double x y = round_double (x * y)"

section \<open>Values received from the network\<close>

text \<open>
  The data of a response is a JSON value; a property that is read from it may be
  \<^verbatim>\<open>undefined\<close>, which is \<open>None\<close>.
\<close>

datatype json = JNull | JBool bool | JNum real | JStr jsstring | JArr "json list"
  | JObj "(jsstring \<times> json) list"

datatype error = AxiosError jsstring | AxiosStatusError nat | TypeError | URIError
  | ClientError jsstring

text \<open>
  The named properties that the program reads from received data.  None of the three names is
  a property of a built-in prototype, so on anything but an object that has it as its own
  property the read gives \<^verbatim>\<open>undefined\<close>; on \<^verbatim>\<open>null\<close> and \<^verbatim>\<open>undefined\<close> it throws.
\<close>

datatype data_field = Choices_field | Text_field | Id_field

fun field_name :: "data_field \<Rightarrow> jsstring" where
  "field_name Choices_field = asc ''choices''"
| "field_name Text_field = asc ''text''"
| "field_name Id_field = asc ''_id''"

fun get_field :: "json option \<Rightarrow> data_field \<Rightarrow> error + json option" where
  "get_field None f = Inl TypeError"
| "get_field (Some JNull) f = Inl TypeError"
| "get_field (Some (JObj kvs)) f = Inr (map_of kvs (field_name f))"
| "get_field (Some v) f = Inr None"

text \<open>The read \<^verbatim>\<open>v[0]\<close>: the first element of an array, the first code unit of a string.\<close>

fun get_index0 :: "json option \<Rightarrow> error + json option" where
  "get_index0 None = Inl TypeError"
| "get_index0 (Some JNull) = Inl TypeError"
| "get_index0 (Some (JArr xs)) = Inr (case xs of [] \<Rightarrow> None | x # _ \<Rightarrow> Some x)"
| "get_index0 (Some (JStr s)) = Inr (case s of [] \<Rightarrow> None | c # _ \<Rightarrow> Some (JStr [c]))"
| "get_index0 (Some (JObj kvs)) = Inr (map_of kvs (asc ''0''))"
| "get_index0 (Some v) = Inr None"

text \<open>The call \<^verbatim>\<open>v.trim()\<close>: only a string has a callable \<^verbatim>\<open>trim\<close>.\<close>

fun call_trim :: "json option \<Rightarrow> error + jsstring" where
  "call_trim (Some (JStr s)) = Inr (trim s)"
| "call_trim v = Inl TypeError"

text \<open>\<^verbatim>\<open>response.data.choices[0].text.trim()\<close>\<close>

definition snippet_of :: "json \<Rightarrow> error + jsstring" where
  "snippet_of data =
     (case get_field (Some data) Choices_field of
        Inl e \<Rightarrow> Inl e
      | Inr choices \<Rightarrow>
          (case get_index0 choices of
             Inl e \<Rightarrow> Inl e
           | Inr choice \<Rightarrow>
               (case get_field choice Text_field of
                  Inl e \<Rightarrow> Inl e
                | Inr text \<Rightarrow> call_trim text)))"

text \<open>
  A request of axios either gets no response (a transport error, with its message) or a
  response with a status and data; the promise is rejected unless the status is in
  \<open>200..299\<close>.
\<close>

datatype 'a http_outcome = NoResponse jsstring | Response nat 'a

fun axios_settle :: "'a http_outcome \<Rightarrow> error + 'a" where
  "axios_settle (NoResponse m) = Inl (AxiosError m)"
| "axios_settle (Response status d) =
     (if 200 \<le> status \<and> status < 300 then Inr d else Inl (AxiosStatusError status))"

datatype 'a promise = Rejected jsstring | Resolved 'a

subsection \<open>\<^verbatim>\<open>encodeURIComponent\<close>\<close>

definition is_uri_unreserved :: "nat \<Rightarrow> bool" where
  "is_uri_unreserved c =
     (is_upper_ascii c \<or> is_lower_ascii c \<or> is_digit c
      \<or> c \<in> {45, 95, 46, 33, 126, 42, 39, 40, 41})"

definition hex_digit :: "nat \<Rightarrow> nat" where
  "hex_digit n = (if n < 10 then 48 + n else 55 + n)"

definition percent_encode :: "nat list \<Rightarrow> jsstring" where
  "percent_encode bytes = concat (map (\<lambda>b. [37, hex_digit (b div 16), hex_digit (b mod 16)]) bytes)"

definition utf8 :: "nat \<Rightarrow> nat list" where
  "utf8 cp =
     (if cp < 128 then [cp]
      else if cp < 2048 then [192 + cp div 64, 128 + cp mod 64]
      else if cp < 65536 then [224 + cp div 4096, 128 + cp div 64 mod 64, 128 + cp mod 64]
      else [240 + cp div 262144, 128 + cp div 4096 mod 64, 128 + cp div 64 mod 64,
            128 + cp mod 64])"

text \<open>A surrogate that is not part of a pair makes \<^verbatim>\<open>encodeURIComponent\<close> throw a URIError.\<close>

fun encodeURIComponent :: "jsstring \<Rightarrow> error + jsstring" where
  "encodeURIComponent [] = Inr []"
| "encodeURIComponent [c] =
     (if is_uri_unreserved c then Inr [c]
      else if is_low_surrogate c \<or> is_high_surrogate c then Inl URIError
      else Inr (percent_encode (utf8 c)))"
| "encodeURIComponent (c # d # cs) =
     (if is_uri_unreserved c then
        (case encodeURIComponent (d # cs) of Inl e \<Rightarrow> Inl e | Inr r \<Rightarrow> Inr (c # r))
      else if is_low_surrogate c then Inl URIError
      else if is_high_surrogate c then
        (if is_low_surrogate d then
           (case encodeURIComponent cs of
              Inl e \<Rightarrow> Inl e
            | Inr r \<Rightarrow>
                Inr (percent_encode (utf8 (65536 + (c - 55296) * 1024 + (d - 56320))) @ r))
         else Inl URIError)
      else
        (case encodeURIComponent (d # cs) of
           Inl e \<Rightarrow> Inl e
         | Inr r \<Rightarrow> Inr (percent_encode (utf8 c) @ r)))"

section \<open>The post\<close>

text \<open>
  The document that \<^verbatim>\<open>createSanityPost\<close> builds.  The fields that are constant
  (\<^verbatim>\<open>_type\<close> tags) are part of the constructors; a reference that may be \<^verbatim>\<open>undefined\<close> or
  \<^verbatim>\<open>null\<close> is an optional value.
\<close>

datatype text_span = Span (span_text: jsstring)

datatype body_item =
    Block (children: "text_span list")
  | Code (code_title: jsstring) (code: jsstring) (language: jsstring)

record document =
  post_title :: jsstring
  post_slug :: jsstring
  post_author :: "jsstring option"
  post_mainImage :: "json option"
  post_categories :: "jsstring option list"
  post_publishedAt :: jsstring
  post_body :: "body_item list"

section \<open>The world outside the program\<close>

text \<open>
  What one run of the pipeline gets from outside: the value of \<^verbatim>\<open>Math.random()\<close>, the Unicode
  lowercase table, the outcome that each remote call has if it is made (the completion request,
  the image fetch, the asset upload, the document creation), the two renderings of the current
  date, the generated UUID and the two environment variables.
\<close>

record env =
  mathRandom :: real
  lowercaseTable :: lowercase_mapping
  completionResponse :: "json http_outcome"
  localeDate :: jsstring
  imageResponse :: "nat list http_outcome"
  uuidv4 :: jsstring
  uploadResponse :: "json promise"
  isoDate :: jsstring
  createResponse :: "json promise"
  SANITY_AUTHOR_ID :: "jsstring option"
  SANITY_CATEGORY_ID :: "jsstring option"

text \<open>What one run does to the outside, in order.\<close>

datatype event =
    Post_completion "jsstring option"
  | Console_log "jsstring list"
  | Console_error jsstring error
  | Get_image jsstring
  | Upload_asset "nat list" jsstring
  | Create_document document

section \<open>The pipeline\<close>

subsection \<open>Prompt selection\<close>

text \<open>
  \<^verbatim>\<open>promptList[Math.floor(Math.random() * promptList.length)]\<close>; an index outside the list
  gives \<^verbatim>\<open>undefined\<close>.
\<close>

definition randomIndex :: "real \<Rightarrow> int" where
  "randomIndex r = \<lfloor>times_double r (of_nat (length promptList))\<rfloor>"

definition element_at :: "'a list \<Rightarrow> int \<Rightarrow> 'a option" where
  "element_at xs i = (if 0 \<le> i \<and> i < int (length xs) then Some (xs ! nat i) else None)"

definition selectPrompt :: "real \<Rightarrow> jsstring option" where
  "selectPrompt r = element_at promptList (randomIndex r)"

text \<open>
  The index of a selector that gives every entry the same probability, for comparison: the
  one that the exact product selects, so that entry \<open>i\<close> is selected by the values of
  \<open>[i / 10, (i + 1) / 10)\<close>.
\<close>

definition exactIndex :: "real \<Rightarrow> int" where
  "exactIndex r = \<lfloor>r * of_nat (length promptList)\<rfloor>"

subsection \<open>Image acquisition\<close>

definition PLACEHOLDER_IMAGE_API :: jsstring where
  "PLACEHOLDER_IMAGE_API = asc ''https://via.placeholder.com/800x400.png?text=''"

definition uploadError :: "error \<Rightarrow> event" where
  "uploadError e = Console_error (asc ''Error uploading image to Sanity:'') e"

text \<open>
  \<^verbatim>\<open>uploadImageToSanity\<close>: the value it returns (the \<^verbatim>\<open>_id\<close> of the uploaded asset, or \<^verbatim>\<open>null\<close>
  from the \<^verbatim>\<open>catch\<close>), and what it did.
\<close>

definition uploadImageToSanity :: "env \<Rightarrow> jsstring \<Rightarrow> json option \<times> event list" where
  "uploadImageToSanity env imageUrl =
     (case axios_settle (imageResponse env) of
        Inl e \<Rightarrow> (Some JNull, [Get_image imageUrl, uploadError e])
      | Inr buffer \<Rightarrow>
          (let filename = asc ''code-snippet-'' @ uuidv4 env @ asc ''.png'';
               done = [Get_image imageUrl, Upload_asset buffer filename]
           in case uploadResponse env of
                Rejected m \<Rightarrow> (Some JNull, done @ [uploadError (ClientError m)])
              | Resolved imageUploadResponse \<Rightarrow>
                  (case get_field (Some imageUploadResponse) Id_field of
                     Inl e \<Rightarrow> (Some JNull, done @ [uploadError e])
                   | Inr ident \<Rightarrow> (ident, done))))"

subsection \<open>Assembly and persistence\<close>

definition saveError :: "error \<Rightarrow> event" where
  "saveError e = Console_error (asc ''Error saving snippet post to Sanity:'') e"

text \<open>The four narrative texts of the body, as the source file spells them.\<close>

definition announcementText :: jsstring where
  "announcementText =
     [240, 376, 338, 376] @ asc '' Here'' @ [226, 8364, 8482] @ asc ''s Today''
     @ [226, 8364, 8482] @ asc ''s Code Snippet! '' @ [240, 376, 338, 376]"

definition greetingText :: jsstring where
  "greetingText =
     [240, 376, 8216, 8249] @ asc '' Hello, developers! Ready to level up? Check out today''
     @ [226, 8364, 8482] @ asc ''s code snippet below.''"

definition explanationText :: "jsval \<Rightarrow> jsstring" where
  "explanationText problemExplanation =
     [240, 376, 167, 160] @ asc '' What'' @ [226, 8364, 8482]
     @ asc ''s happening here? This snippet demonstrates how to ''
     @ ToString problemExplanation @ asc ''.''"

definition callToActionText :: jsstring where
  "callToActionText = [240, 376, 8217, 172] @ asc '' Got questions? Share your thoughts below!''"

text \<open>
  \<^verbatim>\<open>createSanityPost\<close>.  The slug and the image URL are computed first (a title with a lone
  surrogate makes \<^verbatim>\<open>encodeURIComponent\<close> throw), the image is uploaded while the document is
  built, and every error ends in the \<^verbatim>\<open>catch\<close>, which logs it.
\<close>

definition createSanityPost :: "env \<Rightarrow> jsstring \<Rightarrow> jsstring \<Rightarrow> jsval \<Rightarrow> event list" where
  "createSanityPost env title snippet problemExplanation =
     (let slug = generateSlug (lowercaseTable env) title
      in case encodeURIComponent title of
           Inl e \<Rightarrow> [saveError e]
         | Inr encoded \<Rightarrow>
             (let imageUrl = PLACEHOLDER_IMAGE_API @ encoded;
                  (asset, uploading) = uploadImageToSanity env imageUrl;
                  document =
                    \<lparr> post_title = title,
                      post_slug = slug,
                      post_author = SANITY_AUTHOR_ID env,
                      post_mainImage = asset,
                      post_categories = [SANITY_CATEGORY_ID env],
                      post_publishedAt = isoDate env,
                      post_body =
                        [Block [Span announcementText],
                         Block [Span greetingText],
                         Code (asc ''Code Snippet'') snippet (asc ''javascript''),
                         Block [Span (explanationText problemExplanation)],
                         Block [Span callToActionText]] \<rparr>
              in uploading @ [Create_document document] @
                 (case createResponse env of
                    Rejected m \<Rightarrow> [saveError (ClientError m)]
                  | Resolved r \<Rightarrow> [Console_log [asc ''Snippet post saved to Sanity.'']])))"

subsection \<open>Snippet generation\<close>

text \<open>\<^verbatim>\<open>s.split(' ')\<close>: the pieces between single spaces.\<close>

fun split_space :: "jsstring \<Rightarrow> jsstring list" where
  "split_space [] = [[]]"
| "split_space (c # cs) =
     (if c = 32 then [] # split_space cs
      else (case split_space cs of [] \<Rightarrow> [[c]] | w # ws \<Rightarrow> (c # w) # ws))"

text \<open>\<^verbatim>\<open>xs[1]\<close> on an array of strings.\<close>

fun second :: "jsstring list \<Rightarrow> jsval" where
  "second (a # b # xs) = Str b"
| "second xs = Undefined"

definition generateError :: "error \<Rightarrow> event" where
  "generateError e = Console_error (asc ''Error generating snippet:'') e"

text \<open>
  \<^verbatim>\<open>generateCodeSnippet\<close>, the whole pipeline.  When the selected prompt is \<^verbatim>\<open>undefined\<close> the
  request is still sent, and it is the \<^verbatim>\<open>split\<close> of the title that throws.
\<close>

definition generateCodeSnippet :: "env \<Rightarrow> event list" where
  "generateCodeSnippet env =
     (let randomPrompt = selectPrompt (mathRandom env)
      in Post_completion randomPrompt #
         (case axios_settle (completionResponse env) of
            Inl e \<Rightarrow> [generateError e]
          | Inr data \<Rightarrow>
              (case snippet_of data of
                 Inl e \<Rightarrow> [generateError e]
               | Inr snippet \<Rightarrow>
                   Console_log [asc ''Generated Snippet:'', snippet] #
                   (case randomPrompt of
                      None \<Rightarrow> [generateError TypeError]
                    | Some prompt \<Rightarrow>
                        (let uniqueTitle = ToString (second (split_space prompt))
                               @ asc '' Example - '' @ localeDate env;
                             problemExplanation = generateProblemExplanation prompt
                         in createSanityPost env uniqueTitle snippet problemExplanation)))))"

text \<open>The callback that the scheduler runs at each tick.\<close>

definition scheduledJob :: "env \<Rightarrow> event list" where
  "scheduledJob env =
     Console_log [asc ''Running cron job to generate and post code snippet...'']
     # generateCodeSnippet env"

subsection \<open>Reading a run\<close>

text \<open>The documents handed to \<^verbatim>\<open>client.create\<close> in a run, the calls to the content store, and
  the image fetches.\<close>

fun created_documents :: "event list \<Rightarrow> document list" where
  "created_documents [] = []"
| "created_documents (Create_document d # evs) = d # created_documents evs"
| "created_documents (ev # evs) = created_documents evs"

fun is_remote_store_call :: "event \<Rightarrow> bool" where
  "is_remote_store_call (Upload_asset b f) = True"
| "is_remote_store_call (Create_document d) = True"
| "is_remote_store_call ev = False"

fun is_Get_image :: "event \<Rightarrow> bool" where
  "is_Get_image (Get_image u) = True"
| "is_Get_image ev = False"

text \<open>A world in which every call succeeds, used to run the definitions.\<close>

definition sample_env :: env where
  "sample_env =
     \<lparr> mathRandom = 0,
       lowercaseTable = sample_table,
       completionResponse = Response 200 (JObj [(asc ''choices'',
          JArr [JObj [(asc ''text'', JStr (asc ''  function reverse(s){return s} ''))]])]),
       localeDate = asc ''11/3/2026'',
       imageResponse = Response 200 [137, 80, 78, 71],
       uuidv4 = asc ''0b7d'',
       uploadResponse = Resolved (JObj [(asc ''_id'', JStr (asc ''image-abc''))]),
       isoDate = asc ''2026-11-03T16:00:00.000Z'',
       createResponse = Resolved JNull,
       SANITY_AUTHOR_ID = Some (asc ''author-1''),
       SANITY_CATEGORY_ID = Some (asc ''category-1'') \<rparr>"

text \<open>The document of the run in that world.\<close>

definition sample_document :: document where
  "sample_document =
     \<lparr> post_title = asc ''a Example - 11/3/2026'',
       post_slug = asc ''a-example---1132026'',
       post_author = Some (asc ''author-1''),
       post_mainImage = Some (JStr (asc ''image-abc'')),
       post_categories = [Some (asc ''category-1'')],
       post_publishedAt = asc ''2026-11-03T16:00:00.000Z'',
       post_body =
         [Block [Span announcementText],
          Block [Span greetingText],
          Code (asc ''Code Snippet'') (asc ''function reverse(s){return s}'') (asc ''javascript''),
          Block [Span (explanationText (Str (asc ''reverse a string'')))],
          Block [Span callToActionText]] \<rparr>"

text \<open>The same world with a completion that has no choice, and with an image that fails.\<close>

definition env_empty_choices :: env where
  "env_empty_choices =
     sample_env\<lparr>completionResponse := Response 200 (JObj [(asc ''choices'', JArr [])])\<rparr>"

definition env_no_image :: env where
  "env_no_image = sample_env\<lparr>imageResponse := Response 503 []\<rparr>"

text \<open>Ten doubles of \<open>[0, 1)\<close>, one for each index.\<close>

definition sample_randoms :: "real list" where
  "sample_randoms = [0, 1 / 8, 1 / 4, 3 / 8, 7 / 16, 1 / 2, 5 / 8, 3 / 4, 7 / 8, 15 / 16]"

text \<open>The double nearest to \<open>0.3\<close>, which is what the literal \<^verbatim>\<open>0.3\<close> denotes.\<close>

definition double_0_3 :: real where
  "double_0_3 = 5404319552844595 / 2 ^ 54"

section \<open>Properties of the slug generator\<close>

lemma asc_eq_iff [simp]: "asc a = asc b \<longleftrightarrow> a = b"
  unfolding asc_def by (rule inj_map_eq_map) (simp add: inj_on_def)

lemma asc_eq_Nil [simp]: "asc a = [] \<longleftrightarrow> a = []"
  by (simp add: asc_def)

lemmas slug_eval = asc_def generateSlug_def toLowerCase_def CodePointsToString_def
  UTF16EncodeCodePoint_def lower_ascii_def is_upper_ascii_def is_lower_ascii_def is_digit_def
  is_word_char_def is_white_space_def is_high_surrogate_def is_low_surrogate_def
  remove_non_word_def sample_table_def

lemma sample_table_ok: "lowercase_table_ok sample_table"
  by (auto simp: lowercase_table_ok_def sample_table_def is_upper_ascii_def)

lemma UTF16EncodeCodePoint_no_upper:
  "\<not> is_upper_ascii cp \<Longrightarrow> x \<in> set (UTF16EncodeCodePoint cp) \<Longrightarrow> \<not> is_upper_ascii x"
  by (auto simp: UTF16EncodeCodePoint_def is_upper_ascii_def split: if_splits)

lemma CodePointsToString_no_upper:
  "\<forall>cp \<in> set cps. \<not> is_upper_ascii cp \<Longrightarrow> x \<in> set (CodePointsToString cps)
   \<Longrightarrow> \<not> is_upper_ascii x"
  unfolding CodePointsToString_def using UTF16EncodeCodePoint_no_upper by auto

lemma lower_ascii_no_upper: "\<not> is_upper_ascii (lower_ascii c)"
  by (simp add: lower_ascii_def is_upper_ascii_def)

lemma toLowercase_no_upper:
  "lowercase_table_ok U \<Longrightarrow> x \<in> set (toLowercase U prev cps) \<Longrightarrow> \<not> is_upper_ascii x"
proof (induction cps arbitrary: prev)
  case Nil
  then show ?case by simp
next
  case (Cons c cps)
  from Cons.prems(2) consider "c < 128" "x = lower_ascii c"
    | "128 \<le> c" "x \<in> set (U prev c cps)"
    | "x \<in> set (toLowercase U (prev @ [c]) cps)"
    by (auto split: if_splits)
  then show ?case
  proof cases
    case 1
    then show ?thesis by (simp add: lower_ascii_no_upper)
  next
    case 2
    with Cons.prems(1) show ?thesis by (auto simp: lowercase_table_ok_def)
  next
    case 3
    with Cons show ?thesis by blast
  qed
qed

lemma toLowerCase_no_upper:
  "lowercase_table_ok U \<Longrightarrow> x \<in> set (toLowerCase U s) \<Longrightarrow> \<not> is_upper_ascii x"
  unfolding toLowerCase_def
  using CodePointsToString_no_upper toLowercase_no_upper by blast

lemma replace_space_runs_set:
  "x \<in> set (replace_space_runs s) \<Longrightarrow> x = 45 \<or> (x \<in> set s \<and> \<not> is_white_space x)"
proof (induction s rule: replace_space_runs.induct)
  case 1
  then show ?case by simp
next
  case (2 c cs)
  show ?case
  proof (cases "is_white_space c")
    case True
    with 2 have "x = 45 \<or> (x \<in> set (dropWhile is_white_space cs) \<and> \<not> is_white_space x)"
      by auto
    then show ?thesis using set_dropWhileD by fastforce
  next
    case False
    with 2 show ?thesis by auto
  qed
qed

lemma slug_char_iff:
  "is_slug_char c \<longleftrightarrow> (is_word_char c \<or> c = 45) \<and> \<not> is_upper_ascii c"
  by (auto simp: is_slug_char_def is_word_char_def is_upper_ascii_def is_lower_ascii_def
      is_digit_def)

lemma slug_char_not_space: "is_slug_char c \<Longrightarrow> \<not> is_white_space c"
  by (auto simp: is_slug_char_def is_white_space_def is_lower_ascii_def is_digit_def)

lemma generateSlug_chars:
  assumes "lowercase_table_ok U" and "c \<in> set (generateSlug U T)"
  shows "is_slug_char c"
proof -
  from assms(2) have w: "is_word_char c \<or> c = 45"
    and m: "c \<in> set (replace_space_runs (toLowerCase U T))"
    by (auto simp: generateSlug_def remove_non_word_def)
  from m have "c = 45 \<or> c \<in> set (toLowerCase U T)"
    using replace_space_runs_set by blast
  then have "\<not> is_upper_ascii c"
    using toLowerCase_no_upper [OF assms(1)] by (auto simp: is_upper_ascii_def)
  with w show ?thesis by (simp add: slug_char_iff)
qed

lemma StringToCodePoints_slug:
  "\<forall>c \<in> set s. is_slug_char c \<Longrightarrow> StringToCodePoints s = s"
  by (induction s rule: StringToCodePoints.induct)
     (auto simp: is_slug_char_def is_high_surrogate_def is_lower_ascii_def is_digit_def)

lemma toLowercase_slug:
  "\<forall>c \<in> set s. is_slug_char c \<Longrightarrow> toLowercase U prev s = s"
  by (induction s arbitrary: prev)
     (auto simp: is_slug_char_def lower_ascii_def is_upper_ascii_def is_lower_ascii_def
        is_digit_def)

lemma CodePointsToString_slug:
  "\<forall>c \<in> set s. is_slug_char c \<Longrightarrow> CodePointsToString s = s"
  by (induction s)
     (auto simp: CodePointsToString_def UTF16EncodeCodePoint_def is_slug_char_def
        is_lower_ascii_def is_digit_def)

lemma toLowerCase_slug:
  "\<forall>c \<in> set s. is_slug_char c \<Longrightarrow> toLowerCase U s = s"
  by (simp add: toLowerCase_def StringToCodePoints_slug toLowercase_slug
      CodePointsToString_slug)

lemma replace_space_runs_slug:
  "\<forall>c \<in> set s. is_slug_char c \<Longrightarrow> replace_space_runs s = s"
  by (induction s) (auto simp: slug_char_not_space)

lemma remove_non_word_slug:
  "\<forall>c \<in> set s. is_slug_char c \<Longrightarrow> remove_non_word s = s"
  unfolding remove_non_word_def by (rule filter_True) (simp add: slug_char_iff)

lemma generateSlug_fixes_slug:
  "\<forall>c \<in> set s. is_slug_char c \<Longrightarrow> generateSlug U s = s"
  by (simp add: generateSlug_def toLowerCase_slug replace_space_runs_slug
      remove_non_word_slug)

lemma slug_of_sample_title:
  "generateSlug sample_table (asc ''a Example - 11/3/2026'') = asc ''a-example---1132026''"
  by (simp add: slug_eval)

lemma slug_of_mixed_title:
  "generateSlug sample_table ([8490, 304, 65, 32, 9, 192] @ asc ''Hello  World_x-y!'')
   = asc ''kia-hello-world_x-y''"
  by (simp add: slug_eval)

text \<open>
  Claim C3.  For every title \<open>T\<close> the slug is lowercase (it has none of \<^verbatim>\<open>A-Z\<close> and
  \<^verbatim>\<open>toLowerCase\<close> leaves it as it is), has no white space, and is made of word characters and
  hyphens only; and the slug is a function of the title: equal titles have equal slugs.  The
  Unicode table is any table that maps no code point beyond ASCII to one of \<^verbatim>\<open>A-Z\<close>.
\<close>

theorem generateSlug_output:
  assumes "lowercase_table_ok U"
  shows "(\<forall>c \<in> set (generateSlug U T).
            \<not> is_upper_ascii c \<and> \<not> is_white_space c \<and> (is_word_char c \<or> c = 45))
         \<and> toLowerCase U (generateSlug U T) = generateSlug U T
         \<and> (\<forall>T'. T' = T \<longrightarrow> generateSlug U T' = generateSlug U T)"
proof -
  have sc: "\<forall>c \<in> set (generateSlug U T). is_slug_char c"
    using generateSlug_chars [OF assms] by blast
  then have "\<forall>c \<in> set (generateSlug U T).
            \<not> is_upper_ascii c \<and> \<not> is_white_space c \<and> (is_word_char c \<or> c = 45)"
    using slug_char_iff slug_char_not_space by blast
  moreover have "toLowerCase U (generateSlug U T) = generateSlug U T"
    using sc by (rule toLowerCase_slug)
  ultimately show ?thesis by simp
qed

theorem generateSlug_output_witness:
  "lowercase_table_ok sample_table
   \<and> generateSlug sample_table (asc ''a Example - 11/3/2026'') = asc ''a-example---1132026''
   \<and> list_all (\<lambda>c. \<not> is_upper_ascii c \<and> \<not> is_white_space c \<and> (is_word_char c \<or> c = 45))
        (generateSlug sample_table (asc ''a Example - 11/3/2026''))
   \<and> toLowerCase sample_table (asc ''a-example---1132026'') = asc ''a-example---1132026''"
  using generateSlug_output [OF sample_table_ok, of "asc ''a Example - 11/3/2026''"]
  by (simp add: slug_of_sample_title sample_table_ok list_all_iff)

text \<open>
  Claim C9.  The slug generator is idempotent: the slug of a slug is that slug.
\<close>

theorem generateSlug_idempotent:
  assumes "lowercase_table_ok U"
  shows "generateSlug U (generateSlug U T) = generateSlug U T"
  using generateSlug_chars [OF assms] by (intro generateSlug_fixes_slug) blast

theorem generateSlug_idempotent_witness:
  "lowercase_table_ok sample_table
   \<and> generateSlug sample_table ([8490, 304, 65, 32, 9, 192] @ asc ''Hello  World_x-y!'')
       = asc ''kia-hello-world_x-y''
   \<and> generateSlug sample_table (asc ''kia-hello-world_x-y'') = asc ''kia-hello-world_x-y''"
proof -
  let ?T = "[8490, 304, 65, 32, 9, 192] @ asc ''Hello  World_x-y!''"
  have e: "generateSlug sample_table ?T = asc ''kia-hello-world_x-y''"
    by (rule slug_of_mixed_title)
  have "generateSlug sample_table (generateSlug sample_table ?T) = generateSlug sample_table ?T"
    by (rule generateSlug_idempotent [OF sample_table_ok])
  then have "generateSlug sample_table (asc ''kia-hello-world_x-y'') = asc ''kia-hello-world_x-y''"
    unfolding e .
  with e sample_table_ok show ?thesis by blast
qed

section \<open>Properties of the explanation resolver\<close>

lemma explanationMapping_keys: "map fst explanationMapping = promptList"
  by (simp add: explanationMapping_def promptList_def)

lemma explanationMapping_values:
  "list_all (\<lambda>e. e \<noteq> [] \<and> e \<noteq> fallbackExplanation) (map snd explanationMapping)"
  by (simp add: explanationMapping_def fallbackExplanation_def)

lemma promptList_distinct: "distinct promptList"
  by (simp add: promptList_def)

lemma promptList_length: "length promptList = 10"
  by (simp add: promptList_def)

lemma prompt_explained:
  assumes "p \<in> set promptList"
  shows "\<exists>e. map_of explanationMapping p = Some e \<and> e \<noteq> [] \<and> e \<noteq> fallbackExplanation"
proof -
  from assms have "p \<in> fst ` set explanationMapping"
    using explanationMapping_keys by (metis set_map)
  then obtain e where e: "map_of explanationMapping p = Some e"
    by (meson map_of_eq_None_iff not_Some_eq)
  then have "e \<in> set (map snd explanationMapping)"
    by (force dest: map_of_SomeD)
  with explanationMapping_values have "e \<noteq> [] \<and> e \<noteq> fallbackExplanation"
    by (auto simp: list_all_iff)
  with e show ?thesis by blast
qed

lemma explanation_of_mapped:
  "map_of explanationMapping p = Some e \<Longrightarrow> e \<noteq> [] \<Longrightarrow> generateProblemExplanation p = Str e"
  by (simp add: generateProblemExplanation_def get_property_def js_or_def)

lemma explanation_of_unknown:
  "map_of explanationMapping p = None \<Longrightarrow> Object_prototype p = Undefined \<Longrightarrow>
   generateProblemExplanation p = Str fallbackExplanation"
  by (simp add: generateProblemExplanation_def get_property_def js_or_def)

lemma element_at_mem: "element_at xs i = Some x \<Longrightarrow> x \<in> set xs"
  by (auto simp: element_at_def split: if_splits)

lemma selectPrompt_in_list: "selectPrompt r = Some p \<Longrightarrow> p \<in> set promptList"
  unfolding selectPrompt_def by (rule element_at_mem)

text \<open>
  Claim C10.  Every prompt of the list is a key of the explanation mapping, with a mapped
  string that is not empty; so for every prompt of the list, and for every prompt that the
  selector produces, the lookup is truthy and the resolver returns the mapped string: the
  fallback is not reached.
\<close>

theorem every_prompt_is_explained:
  "(\<forall>p \<in> set promptList. \<exists>e. map_of explanationMapping p = Some e \<and> e \<noteq> []
        \<and> truthy (get_property explanationMapping p)
        \<and> generateProblemExplanation p = Str e \<and> e \<noteq> fallbackExplanation)
   \<and> (\<forall>r p. selectPrompt r = Some p \<longrightarrow>
         (\<exists>e. map_of explanationMapping p = Some e \<and> e \<noteq> []
            \<and> truthy (get_property explanationMapping p)
            \<and> generateProblemExplanation p = Str e \<and> e \<noteq> fallbackExplanation))"
proof -
  have *: "\<exists>e. map_of explanationMapping p = Some e \<and> e \<noteq> []
        \<and> truthy (get_property explanationMapping p)
        \<and> generateProblemExplanation p = Str e \<and> e \<noteq> fallbackExplanation"
    if "p \<in> set promptList" for p
  proof -
    from prompt_explained [OF that] obtain e
      where e: "map_of explanationMapping p = Some e" "e \<noteq> []" "e \<noteq> fallbackExplanation"
      by blast
    then have "truthy (get_property explanationMapping p)"
      by (simp add: get_property_def)
    with e explanation_of_mapped show ?thesis by blast
  qed
  then show ?thesis using selectPrompt_in_list by blast
qed

theorem every_prompt_is_explained_witness:
  "asc ''Create a batch script to automate file backups.'' \<in> set promptList
   \<and> generateProblemExplanation (asc ''Create a batch script to automate file backups.'')
       = Str (asc ''automate file backups using a batch script'')
   \<and> selectPrompt 0 = Some (asc ''Write a JavaScript function to reverse a string.'')
   \<and> generateProblemExplanation (asc ''Write a JavaScript function to reverse a string.'')
       = Str (asc ''reverse a string'')"
proof -
  let ?p = "asc ''Create a batch script to automate file backups.''"
  let ?q = "asc ''Write a JavaScript function to reverse a string.''"
  have m: "?p \<in> set promptList"
    by (simp add: promptList_def)
  have s: "selectPrompt 0 = Some ?q"
    by (simp add: selectPrompt_def randomIndex_def times_double_def round_double_def
        element_at_def promptList_def)
  from every_prompt_is_explained m obtain e
    where e: "map_of explanationMapping ?p = Some e" "generateProblemExplanation ?p = Str e"
    by blast
  from every_prompt_is_explained s obtain f
    where f: "map_of explanationMapping ?q = Some f" "generateProblemExplanation ?q = Str f"
    by blast
  from e(1) have "e = asc ''automate file backups using a batch script''"
    by (simp add: explanationMapping_def)
  moreover from f(1) have "f = asc ''reverse a string''"
    by (simp add: explanationMapping_def)
  ultimately show ?thesis using m s e(2) f(2) by simp
qed

text \<open>
  Claim C4.  For a prompt of the list the resolver returns the mapped string
  (\<open>explanation_of_mapped\<close>), and for a string that is neither a key nor the name of a
  property of \<^verbatim>\<open>Object.prototype\<close> it returns the fallback (\<open>explanation_of_unknown\<close>).  But
  the lookup \<^verbatim>\<open>explanationMapping[prompt]\<close> also finds what the literal inherits: for the
  string \<^verbatim>\<open>constructor\<close>, which is not in the list, the resolver returns the function
  \<^verbatim>\<open>Object\<close> and not the fallback string.
\<close>

theorem explanation_of_inherited_name:
  "asc ''constructor'' \<notin> set promptList
   \<and> generateProblemExplanation (asc ''constructor'') = NativeFunction (asc ''Object'')
   \<and> generateProblemExplanation (asc ''constructor'') \<noteq> Str fallbackExplanation"
  by (simp add: promptList_def generateProblemExplanation_def get_property_def
      explanationMapping_def Object_prototype_def js_or_def)

section \<open>Properties of the pipeline\<close>

lemma created_documents_append:
  "created_documents (xs @ ys) = created_documents xs @ created_documents ys"
  by (induction xs rule: created_documents.induct) simp_all

lemma created_documents_upload:
  "created_documents (snd (uploadImageToSanity env url)) = []"
  by (simp add: uploadImageToSanity_def uploadError_def Let_def
      split: sum.splits promise.splits)

lemma createSanityPost_created:
  "created_documents (createSanityPost env title snippet expl) =
     (case encodeURIComponent title of
        Inl e \<Rightarrow> []
      | Inr encoded \<Rightarrow>
          [\<lparr> post_title = title,
             post_slug = generateSlug (lowercaseTable env) title,
             post_author = SANITY_AUTHOR_ID env,
             post_mainImage = fst (uploadImageToSanity env (PLACEHOLDER_IMAGE_API @ encoded)),
             post_categories = [SANITY_CATEGORY_ID env],
             post_publishedAt = isoDate env,
             post_body =
               [Block [Span announcementText],
                Block [Span greetingText],
                Code (asc ''Code Snippet'') snippet (asc ''javascript''),
                Block [Span (explanationText expl)],
                Block [Span callToActionText]] \<rparr>])"
  by (simp add: createSanityPost_def Let_def split_def saveError_def
      created_documents_append created_documents_upload
      split: sum.splits promise.splits)

lemma generateCodeSnippet_created:
  "created_documents (generateCodeSnippet env) =
     (case axios_settle (completionResponse env) of
        Inl e \<Rightarrow> []
      | Inr data \<Rightarrow>
          (case snippet_of data of
             Inl e \<Rightarrow> []
           | Inr snippet \<Rightarrow>
               (case selectPrompt (mathRandom env) of
                  None \<Rightarrow> []
                | Some prompt \<Rightarrow>
                    created_documents
                      (createSanityPost env
                         (ToString (second (split_space prompt)) @ asc '' Example - ''
                          @ localeDate env)
                         snippet (generateProblemExplanation prompt)))))"
  by (simp add: generateCodeSnippet_def Let_def generateError_def
      split: sum.splits option.splits)

lemmas uri_eval = is_uri_unreserved_def is_upper_ascii_def is_lower_ascii_def is_digit_def
  is_low_surrogate_def is_high_surrogate_def percent_encode_def utf8_def hex_digit_def

lemma sample_select:
  "selectPrompt (mathRandom sample_env) = Some (asc ''Write a JavaScript function to reverse a string.'')"
  by (simp add: sample_env_def selectPrompt_def randomIndex_def times_double_def
      round_double_def element_at_def promptList_def)

lemma sample_title:
  "ToString (second (split_space (asc ''Write a JavaScript function to reverse a string.'')))
     @ asc '' Example - '' @ localeDate sample_env = asc ''a Example - 11/3/2026''"
  by (simp add: sample_env_def asc_def)

lemma sample_encoded:
  "encodeURIComponent (asc ''a Example - 11/3/2026'') = Inr (asc ''a%20Example%20-%2011%2F3%2F2026'')"
  by (simp add: asc_def uri_eval)

lemma sample_snippet:
  "snippet_of (JObj [(asc ''choices'',
          JArr [JObj [(asc ''text'', JStr (asc ''  function reverse(s){return s} ''))]])])
   = Inr (asc ''function reverse(s){return s}'')"
  by (simp add: snippet_of_def trim_def is_white_space_def asc_def)


lemma sample_explanation:
  "generateProblemExplanation (asc ''Write a JavaScript function to reverse a string.'')
   = Str (asc ''reverse a string'')"
  by (simp add: generateProblemExplanation_def get_property_def explanationMapping_def
      js_or_def)

lemma sample_upload:
  "uploadImageToSanity sample_env url =
     (Some (JStr (asc ''image-abc'')),
      [Get_image url, Upload_asset [137, 80, 78, 71] (asc ''code-snippet-0b7d.png'')])"
  by (simp add: uploadImageToSanity_def sample_env_def asc_def)

lemma sample_post:
  "createSanityPost sample_env (asc ''a Example - 11/3/2026'')
     (asc ''function reverse(s){return s}'') (Str (asc ''reverse a string''))
   = [Get_image (asc ''https://via.placeholder.com/800x400.png?text=a%20Example%20-%2011%2F3%2F2026''),
      Upload_asset [137, 80, 78, 71] (asc ''code-snippet-0b7d.png''),
      Create_document sample_document,
      Console_log [asc ''Snippet post saved to Sanity.'']]"
proof -
  have c: "createResponse sample_env = Resolved JNull"
    and l: "lowercaseTable sample_env = sample_table"
    and a: "SANITY_AUTHOR_ID sample_env = Some (asc ''author-1'')"
    and g: "SANITY_CATEGORY_ID sample_env = Some (asc ''category-1'')"
    and i: "isoDate sample_env = asc ''2026-11-03T16:00:00.000Z''"
    by (simp_all add: sample_env_def)
  have u: "PLACEHOLDER_IMAGE_API @ asc ''a%20Example%20-%2011%2F3%2F2026''
    = asc ''https://via.placeholder.com/800x400.png?text=a%20Example%20-%2011%2F3%2F2026''"
    by (simp add: PLACEHOLDER_IMAGE_API_def asc_def)
  show ?thesis
    unfolding createSanityPost_def sample_encoded
    by (simp add: Let_def sample_upload c l a g i u slug_of_sample_title sample_document_def)
qed

lemma sample_run:
  "generateCodeSnippet sample_env
   = [Post_completion (Some (asc ''Write a JavaScript function to reverse a string.'')),
      Console_log [asc ''Generated Snippet:'', asc ''function reverse(s){return s}''],
      Get_image (asc ''https://via.placeholder.com/800x400.png?text=a%20Example%20-%2011%2F3%2F2026''),
      Upload_asset [137, 80, 78, 71] (asc ''code-snippet-0b7d.png''),
      Create_document sample_document,
      Console_log [asc ''Snippet post saved to Sanity.'']]"
proof -
  have c: "completionResponse sample_env = Response 200 (JObj [(asc ''choices'',
          JArr [JObj [(asc ''text'', JStr (asc ''  function reverse(s){return s} ''))]])])"
    by (simp add: sample_env_def)
  show ?thesis
    unfolding generateCodeSnippet_def sample_select
    by (simp add: Let_def c sample_snippet sample_title sample_explanation sample_post)
qed


text \<open>
  Reading the snippet succeeds exactly when the data is an object whose \<^verbatim>\<open>choices\<close> has, at
  index 0, an object whose \<^verbatim>\<open>text\<close> is a string; with any other data it throws.
\<close>

lemma get_field_Inr:
  "get_field v f = Inr (Some x) \<longleftrightarrow> (\<exists>kvs. v = Some (JObj kvs) \<and> map_of kvs (field_name f) = Some x)"
  by (cases "(v, f)" rule: get_field.cases) auto

lemma call_trim_Inr: "call_trim v = Inr s \<longleftrightarrow> (\<exists>t. v = Some (JStr t) \<and> s = trim t)"
  by (cases v rule: call_trim.cases) auto

lemma snippet_of_Inr:
  "snippet_of data = Inr s \<longleftrightarrow>
     (\<exists>response choices choice returned.
        data = JObj response \<and> map_of response (asc ''choices'') = Some choices
        \<and> get_index0 (Some choices) = Inr (Some (JObj choice))
        \<and> map_of choice (asc ''text'') = Some (JStr returned) \<and> s = trim returned)"
proof
  assume a: "snippet_of data = Inr s"
  then obtain cs where cs: "get_field (Some data) Choices_field = Inr cs"
    by (auto simp: snippet_of_def split: sum.splits)
  with a obtain c where c: "get_index0 cs = Inr c"
    by (auto simp: snippet_of_def split: sum.splits)
  with a cs obtain t where t: "get_field c Text_field = Inr t" and s: "call_trim t = Inr s"
    by (auto simp: snippet_of_def split: sum.splits)
  from s obtain returned where r: "t = Some (JStr returned)" "s = trim returned"
    by (auto simp: call_trim_Inr)
  from t r(1) obtain choice where ch: "c = Some (JObj choice)"
    "map_of choice (asc ''text'') = Some (JStr returned)"
    by (auto simp: get_field_Inr)
  from c ch(1) obtain choices where chs: "cs = Some choices"
    by (cases cs) auto
  from cs chs obtain response where "data = JObj response"
    "map_of response (asc ''choices'') = Some choices"
    by (auto simp: get_field_Inr)
  with chs c ch r(2) show "\<exists>response choices choice returned.
        data = JObj response \<and> map_of response (asc ''choices'') = Some choices
        \<and> get_index0 (Some choices) = Inr (Some (JObj choice))
        \<and> map_of choice (asc ''text'') = Some (JStr returned) \<and> s = trim returned"
    by blast
next
  assume "\<exists>response choices choice returned.
        data = JObj response \<and> map_of response (asc ''choices'') = Some choices
        \<and> get_index0 (Some choices) = Inr (Some (JObj choice))
        \<and> map_of choice (asc ''text'') = Some (JStr returned) \<and> s = trim returned"
  then show "snippet_of data = Inr s"
    by (auto simp: snippet_of_def)
qed

text \<open>
  Claim C1.  If the text-generation call fails (no response, a status outside \<open>200..299\<close>, or
  data from which \<^verbatim>\<open>choices[0].text.trim()\<close> cannot be read because the text is not there),
  the run consists of the request and one logged error: no document is created, and nothing
  is uploaded.
\<close>

theorem generation_failure_aborts:
  assumes "completionResponse env = NoResponse m
           \<or> (completionResponse env = Response status data \<and> \<not> (200 \<le> status \<and> status < 300))
           \<or> (completionResponse env = Response status data \<and> snippet_of data = Inl err)"
  shows "created_documents (generateCodeSnippet env) = []
         \<and> \<not> list_ex is_remote_store_call (generateCodeSnippet env)
         \<and> (\<exists>e. generateCodeSnippet env
                  = [Post_completion (selectPrompt (mathRandom env)), generateError e])"
proof -
  from assms have "\<exists>e. generateCodeSnippet env
                  = [Post_completion (selectPrompt (mathRandom env)), generateError e]"
    by (auto simp: generateCodeSnippet_def Let_def split: sum.splits if_splits)
  then obtain e where
    e: "generateCodeSnippet env = [Post_completion (selectPrompt (mathRandom env)), generateError e]"
    by blast
  then show ?thesis by (simp add: generateError_def)
qed

theorem generation_failure_aborts_witness:
  "completionResponse env_empty_choices = Response 200 (JObj [(asc ''choices'', JArr [])])
   \<and> snippet_of (JObj [(asc ''choices'', JArr [])]) = Inl TypeError
   \<and> created_documents (generateCodeSnippet env_empty_choices) = []
   \<and> \<not> list_ex is_remote_store_call (generateCodeSnippet env_empty_choices)"
proof -
  have c: "completionResponse env_empty_choices = Response 200 (JObj [(asc ''choices'', JArr [])])"
    by (simp add: env_empty_choices_def)
  have s: "snippet_of (JObj [(asc ''choices'', JArr [])]) = Inl TypeError"
    by (simp add: snippet_of_def)
  from c s generation_failure_aborts [of env_empty_choices _ 200 "JObj [(asc ''choices'', JArr [])]" TypeError]
  show ?thesis by blast
qed

lemma upload_failure_null:
  "imageResponse env = NoResponse m \<or> (imageResponse env = Response status b \<and> \<not> (200 \<le> status \<and> status < 300))
     \<or> uploadResponse env = Rejected m' \<Longrightarrow>
   fst (uploadImageToSanity env url) = Some JNull"
  by (auto simp: uploadImageToSanity_def Let_def split: sum.splits promise.splits)

lemma createSanityPost_fetch:
  "list_ex is_Get_image (createSanityPost env title snippet expl)
   \<Longrightarrow> \<exists>encoded. encodeURIComponent title = Inr encoded"
  by (auto simp: createSanityPost_def Let_def saveError_def split: sum.splits)

lemma generateCodeSnippet_fetch:
  assumes "list_ex is_Get_image (generateCodeSnippet env)"
  shows "\<exists>title snippet expl.
           list_ex is_Get_image (createSanityPost env title snippet expl)
           \<and> created_documents (generateCodeSnippet env)
               = created_documents (createSanityPost env title snippet expl)"
  using assms
  by (auto simp: generateCodeSnippet_def Let_def generateError_def
      split: sum.splits option.splits) blast

text \<open>
  Claim C2.  If the image was fetched in a run (of \<^verbatim>\<open>createSanityPost\<close> with any arguments, or
  of the whole pipeline) and the fetch fails (no response, or a status outside \<open>200..299\<close>) or
  the upload is rejected, then \<^verbatim>\<open>uploadImageToSanity\<close> returns \<^verbatim>\<open>null\<close>, the run still hands
  exactly one document to \<^verbatim>\<open>client.create\<close>, and the asset reference of that document is
  \<^verbatim>\<open>null\<close>.
\<close>

theorem image_failure_null_reference:
  assumes "run = createSanityPost env title snippet problemExplanation
           \<or> run = generateCodeSnippet env"
    and "list_ex is_Get_image run"
    and "imageResponse env = NoResponse m
         \<or> (imageResponse env = Response status bytes \<and> \<not> (200 \<le> status \<and> status < 300))
         \<or> uploadResponse env = Rejected m'"
  shows "fst (uploadImageToSanity env imageUrl) = Some JNull
         \<and> (\<exists>d. created_documents run = [d] \<and> post_mainImage d = Some JNull)"
proof -
  have null: "fst (uploadImageToSanity env url) = Some JNull" for url
    using assms(3) by (rule upload_failure_null)
  from assms(1,2) obtain t s x
    where f: "list_ex is_Get_image (createSanityPost env t s x)"
      and c: "created_documents run = created_documents (createSanityPost env t s x)"
    using generateCodeSnippet_fetch by blast
  from createSanityPost_fetch [OF f] obtain encoded
    where "encodeURIComponent t = Inr encoded" by blast
  then have "\<exists>d. created_documents (createSanityPost env t s x) = [d]
                \<and> post_mainImage d = Some JNull"
    by (simp add: createSanityPost_created null)
  with c null show ?thesis by simp
qed

lemma env_no_image_run:
  "generateCodeSnippet env_no_image
   = [Post_completion (Some (asc ''Write a JavaScript function to reverse a string.'')),
      Console_log [asc ''Generated Snippet:'', asc ''function reverse(s){return s}''],
      Get_image (asc ''https://via.placeholder.com/800x400.png?text=a%20Example%20-%2011%2F3%2F2026''),
      uploadError (AxiosStatusError 503),
      Create_document (sample_document\<lparr>post_mainImage := Some JNull\<rparr>),
      Console_log [asc ''Snippet post saved to Sanity.'']]"
proof -
  have c: "completionResponse env_no_image = Response 200 (JObj [(asc ''choices'',
          JArr [JObj [(asc ''text'', JStr (asc ''  function reverse(s){return s} ''))]])])"
    and r: "mathRandom env_no_image = mathRandom sample_env"
    and d: "localeDate env_no_image = localeDate sample_env"
    and cr: "createResponse env_no_image = Resolved JNull"
    and l: "lowercaseTable env_no_image = sample_table"
    and a: "SANITY_AUTHOR_ID env_no_image = Some (asc ''author-1'')"
    and g: "SANITY_CATEGORY_ID env_no_image = Some (asc ''category-1'')"
    and i: "isoDate env_no_image = asc ''2026-11-03T16:00:00.000Z''"
    and im: "imageResponse env_no_image = Response 503 []"
    by (simp_all add: env_no_image_def sample_env_def)
  have u: "PLACEHOLDER_IMAGE_API @ asc ''a%20Example%20-%2011%2F3%2F2026''
    = asc ''https://via.placeholder.com/800x400.png?text=a%20Example%20-%2011%2F3%2F2026''"
    by (simp add: PLACEHOLDER_IMAGE_API_def asc_def)
  have up: "uploadImageToSanity env_no_image url
            = (Some JNull, [Get_image url, uploadError (AxiosStatusError 503)])" for url
    by (simp add: uploadImageToSanity_def im)
  have p: "createSanityPost env_no_image (asc ''a Example - 11/3/2026'')
     (asc ''function reverse(s){return s}'') (Str (asc ''reverse a string''))
   = [Get_image (asc ''https://via.placeholder.com/800x400.png?text=a%20Example%20-%2011%2F3%2F2026''),
      uploadError (AxiosStatusError 503),
      Create_document (sample_document\<lparr>post_mainImage := Some JNull\<rparr>),
      Console_log [asc ''Snippet post saved to Sanity.'']]"
    unfolding createSanityPost_def sample_encoded
    by (simp add: Let_def up cr l a g i u slug_of_sample_title sample_document_def)
  show ?thesis
    unfolding generateCodeSnippet_def r sample_select d
    by (simp add: Let_def c sample_snippet sample_title sample_explanation p)
qed

theorem image_failure_null_reference_witness:
  "imageResponse env_no_image = Response 503 []
   \<and> list_ex is_Get_image (generateCodeSnippet env_no_image)
   \<and> created_documents (generateCodeSnippet env_no_image)
       = [sample_document\<lparr>post_mainImage := Some JNull\<rparr>]
   \<and> fst (uploadImageToSanity env_no_image []) = Some JNull"
proof -
  have im: "imageResponse env_no_image = Response 503 []"
    by (simp add: env_no_image_def)
  have g: "list_ex is_Get_image (generateCodeSnippet env_no_image)"
    by (simp add: env_no_image_run uploadError_def)
  have c: "created_documents (generateCodeSnippet env_no_image)
       = [sample_document\<lparr>post_mainImage := Some JNull\<rparr>]"
    by (simp add: env_no_image_run uploadError_def)
  from image_failure_null_reference [of "generateCodeSnippet env_no_image" env_no_image
      _ _ _ _ 503 "[]" _ "[]"] g im
  have "fst (uploadImageToSanity env_no_image []) = Some JNull" by simp
  with im g c show ?thesis by simp
qed

lemma generateCodeSnippet_document:
  assumes "d \<in> set (created_documents (generateCodeSnippet env))"
  shows "\<exists>data snippet prompt.
           axios_settle (completionResponse env) = Inr data \<and> snippet_of data = Inr snippet
           \<and> selectPrompt (mathRandom env) = Some prompt
           \<and> d \<in> set (created_documents
                 (createSanityPost env
                    (ToString (second (split_space prompt)) @ asc '' Example - ''
                     @ localeDate env)
                    snippet (generateProblemExplanation prompt)))"
  using assms
  by (auto simp: generateCodeSnippet_created split: sum.splits option.splits) metis

lemma createSanityPost_document:
  assumes "d \<in> set (created_documents (createSanityPost env title snippet expl))"
  shows "post_title d = title \<and> post_slug d = generateSlug (lowercaseTable env) title
         \<and> post_body d =
              [Block [Span announcementText],
               Block [Span greetingText],
               Code (asc ''Code Snippet'') snippet (asc ''javascript''),
               Block [Span (explanationText expl)],
               Block [Span callToActionText]]"
  using assms
  by (auto simp: createSanityPost_created split: sum.splits)

text \<open>
  Claim C5.  Every document handed to \<^verbatim>\<open>client.create\<close> has a body of exactly five items, in
  this order: the announcement block, the greeting block, the code item carrying the snippet
  with the language tag \<^verbatim>\<open>javascript\<close> whatever the snippet is, the explanation block with
  the explanation interpolated, and the call-to-action block.  This holds for
  \<^verbatim>\<open>createSanityPost\<close> with any arguments, and in the pipeline the interpolated explanation
  is the string mapped to the selected prompt.
\<close>

theorem created_document_body:
  "(d \<in> set (created_documents (createSanityPost env title snippet problemExplanation)) \<longrightarrow>
      post_body d =
        [Block [Span announcementText],
         Block [Span greetingText],
         Code (asc ''Code Snippet'') snippet (asc ''javascript''),
         Block [Span (explanationText problemExplanation)],
         Block [Span callToActionText]])
   \<and> (d \<in> set (created_documents (generateCodeSnippet env)) \<longrightarrow>
        (\<exists>generated prompt explanation.
           selectPrompt (mathRandom env) = Some prompt
           \<and> map_of explanationMapping prompt = Some explanation
           \<and> post_body d =
               [Block [Span announcementText],
                Block [Span greetingText],
                Code (asc ''Code Snippet'') generated (asc ''javascript''),
                Block [Span ([240, 376, 167, 160] @ asc '' What'' @ [226, 8364, 8482]
                         @ asc ''s happening here? This snippet demonstrates how to ''
                         @ explanation @ asc ''.'')],
                Block [Span callToActionText]]))"
proof (intro conjI impI)
  assume "d \<in> set (created_documents (createSanityPost env title snippet problemExplanation))"
  then show "post_body d =
        [Block [Span announcementText],
         Block [Span greetingText],
         Code (asc ''Code Snippet'') snippet (asc ''javascript''),
         Block [Span (explanationText problemExplanation)],
         Block [Span callToActionText]]"
    using createSanityPost_document by blast
next
  assume "d \<in> set (created_documents (generateCodeSnippet env))"
  from generateCodeSnippet_document [OF this] obtain generated prompt
    where p: "selectPrompt (mathRandom env) = Some prompt"
      and d: "d \<in> set (created_documents
                 (createSanityPost env
                    (ToString (second (split_space prompt)) @ asc '' Example - ''
                     @ localeDate env)
                    generated (generateProblemExplanation prompt)))"
    by blast
  from prompt_explained [OF selectPrompt_in_list [OF p]] obtain explanation
    where e: "map_of explanationMapping prompt = Some explanation" "explanation \<noteq> []"
    by blast
  then have "generateProblemExplanation prompt = Str explanation"
    by (rule explanation_of_mapped)
  with createSanityPost_document [OF d]
  have "post_body d =
               [Block [Span announcementText],
                Block [Span greetingText],
                Code (asc ''Code Snippet'') generated (asc ''javascript''),
                Block [Span ([240, 376, 167, 160] @ asc '' What'' @ [226, 8364, 8482]
                         @ asc ''s happening here? This snippet demonstrates how to ''
                         @ explanation @ asc ''.'')],
                Block [Span callToActionText]]"
    by (simp add: explanationText_def)
  with p e(1) show "\<exists>generated prompt explanation.
           selectPrompt (mathRandom env) = Some prompt
           \<and> map_of explanationMapping prompt = Some explanation
           \<and> post_body d =
               [Block [Span announcementText],
                Block [Span greetingText],
                Code (asc ''Code Snippet'') generated (asc ''javascript''),
                Block [Span ([240, 376, 167, 160] @ asc '' What'' @ [226, 8364, 8482]
                         @ asc ''s happening here? This snippet demonstrates how to ''
                         @ explanation @ asc ''.'')],
                Block [Span callToActionText]]"
    by blast
qed

lemma sample_created: "created_documents (generateCodeSnippet sample_env) = [sample_document]"
  by (simp add: sample_run)

theorem created_document_body_witness:
  "created_documents (generateCodeSnippet sample_env) = [sample_document]
   \<and> length (post_body sample_document) = 5
   \<and> (\<exists>generated explanation.
         post_body sample_document =
               [Block [Span announcementText],
                Block [Span greetingText],
                Code (asc ''Code Snippet'') generated (asc ''javascript''),
                Block [Span ([240, 376, 167, 160] @ asc '' What'' @ [226, 8364, 8482]
                         @ asc ''s happening here? This snippet demonstrates how to ''
                         @ explanation @ asc ''.'')],
                Block [Span callToActionText]])"
proof -
  have m: "sample_document \<in> set (created_documents (generateCodeSnippet sample_env))"
    by (simp add: sample_created)
  from created_document_body [of sample_document sample_env] m
  have "\<exists>generated explanation.
         post_body sample_document =
               [Block [Span announcementText],
                Block [Span greetingText],
                Code (asc ''Code Snippet'') generated (asc ''javascript''),
                Block [Span ([240, 376, 167, 160] @ asc '' What'' @ [226, 8364, 8482]
                         @ asc ''s happening here? This snippet demonstrates how to ''
                         @ explanation @ asc ''.'')],
                Block [Span callToActionText]]"
    by blast
  moreover have "length (post_body sample_document) = 5"
    by (simp add: sample_document_def)
  ultimately show ?thesis using sample_created by blast
qed

text \<open>
  Claim C6.  In every document handed to \<^verbatim>\<open>client.create\<close> the slug is the slug generator
  applied to the title of that same document.
\<close>

theorem slug_of_created_document:
  "(d \<in> set (created_documents (createSanityPost env title snippet problemExplanation)) \<longrightarrow>
      post_title d = title \<and> post_slug d = generateSlug (lowercaseTable env) (post_title d))
   \<and> (d \<in> set (created_documents (generateCodeSnippet env)) \<longrightarrow>
        post_slug d = generateSlug (lowercaseTable env) (post_title d))"
proof (intro conjI impI)
  assume "d \<in> set (created_documents (createSanityPost env title snippet problemExplanation))"
  from createSanityPost_document [OF this]
  show "post_title d = title" and "post_slug d = generateSlug (lowercaseTable env) (post_title d)"
    by simp_all
next
  assume "d \<in> set (created_documents (generateCodeSnippet env))"
  from generateCodeSnippet_document [OF this] obtain t s x
    where "d \<in> set (created_documents (createSanityPost env t s x))"
    by blast
  from createSanityPost_document [OF this]
  show "post_slug d = generateSlug (lowercaseTable env) (post_title d)"
    by simp
qed

theorem slug_of_created_document_witness:
  "created_documents (generateCodeSnippet sample_env) = [sample_document]
   \<and> post_title sample_document = asc ''a Example - 11/3/2026''
   \<and> post_slug sample_document = asc ''a-example---1132026''
   \<and> post_slug sample_document = generateSlug sample_table (post_title sample_document)"
proof -
  have m: "sample_document \<in> set (created_documents (generateCodeSnippet sample_env))"
    by (simp add: sample_created)
  have l: "lowercaseTable sample_env = sample_table"
    by (simp add: sample_env_def)
  from slug_of_created_document [of sample_document sample_env] m
  have "post_slug sample_document = generateSlug (lowercaseTable sample_env) (post_title sample_document)"
    by blast
  then have "post_slug sample_document = generateSlug sample_table (post_title sample_document)"
    unfolding l .
  then show ?thesis using sample_created by (simp add: sample_document_def)
qed



section \<open>Properties of the prompt selector\<close>

lemma rte_le: "y \<le> of_int n \<Longrightarrow> round_ties_even y \<le> n"
  unfolding round_ties_even_def Let_def by (auto; linarith)

lemma rte_ge: "of_int n \<le> y \<Longrightarrow> n \<le> round_ties_even y"
  unfolding round_ties_even_def Let_def by (auto; linarith)

lemma rte_lt_half: "y < of_int n + 1 / 2 \<Longrightarrow> round_ties_even y \<le> n"
  unfolding round_ties_even_def Let_def by (auto; linarith)

lemma rte_of_int [simp]: "round_ties_even (of_int n) = n"
  unfolding round_ties_even_def Let_def by simp

lemma rte_upper: "of_int (round_ties_even y) \<le> y + 1 / 2"
  unfolding round_ties_even_def Let_def by (auto; linarith)

lemma rte_lower: "y - 1 / 2 \<le> of_int (round_ties_even y)"
  unfolding round_ties_even_def Let_def by (auto; linarith)


lemma log_bracket:
  assumes "0 < x"
  shows "2 powr of_int \<lfloor>log 2 x\<rfloor> \<le> x" and "x < 2 powr (of_int \<lfloor>log 2 x\<rfloor> + 1)"
  using floor_log_eq_powr_iff [of x 2 "\<lfloor>log 2 x\<rfloor>"] assms by simp_all

lemma floor_log_less:
  assumes "0 < x" and "x < 2 powr of_int k"
  shows "\<lfloor>log 2 x\<rfloor> < k"
proof -
  have "(2::real) powr of_int \<lfloor>log 2 x\<rfloor> < 2 powr of_int k"
    using log_bracket(1) [OF assms(1)] assms(2) by linarith
  then show ?thesis by simp
qed

lemma floor_log_ge:
  assumes "0 < x" and "2 powr of_int k \<le> x"
  shows "k \<le> \<lfloor>log 2 x\<rfloor>"
proof -
  have "(2::real) powr of_int k < 2 powr (of_int \<lfloor>log 2 x\<rfloor> + 1)"
    using log_bracket(2) [OF assms(1)] assms(2) by linarith
  then have "of_int k < (of_int \<lfloor>log 2 x\<rfloor> + 1 :: real)" by simp
  then show ?thesis by linarith
qed

lemma round_double_nonneg: "0 \<le> x \<Longrightarrow> 0 \<le> round_double x"
proof -
  assume "0 \<le> x"
  then have "0 \<le> x / 2 powr of_int (last_bit_exponent x)" by simp
  then have "0 \<le> round_ties_even (x / 2 powr of_int (last_bit_exponent x))"
    using rte_ge [of 0] by simp
  then show ?thesis by (simp add: round_double_def)
qed

lemma scaled_below:
  assumes "0 < x"
  shows "x / 2 powr of_int (last_bit_exponent x) < 2 ^ 53"
proof -
  let ?L = "\<lfloor>log 2 x\<rfloor>"
  let ?e = "last_bit_exponent x"
  have e: "?L + 1 \<le> ?e + 53"
    using assms by (simp add: last_bit_exponent_def)
  have "x < 2 powr (of_int ?L + 1)" by (rule log_bracket(2) [OF assms])
  also have "\<dots> \<le> 2 powr of_int (?e + 53)"
    using e by (simp del: of_int_add)
  also have "\<dots> = 2 powr of_int ?e * 2 ^ 53"
    by (simp add: powr_add)
  finally show ?thesis by (simp add: field_simps)
qed


lemma powr_nat_diff:
  assumes "e \<le> k"
  shows "(2::real) powr of_int k = of_int (2 ^ nat (k - e)) * 2 powr of_int e"
proof -
  have "(2::real) powr of_int k = 2 powr (of_int (k - e) + of_int e)" by simp
  also have "\<dots> = 2 powr of_int (k - e) * 2 powr of_int e" by (simp only: powr_add)
  also have "(2::real) powr of_int (k - e) = 2 ^ nat (k - e)"
    using assms by (simp add: powr_real_of_int del: of_int_diff)
  finally show ?thesis by simp
qed

lemma round_double_multiple:
  assumes "x = of_int m * 2 powr of_int (last_bit_exponent x)"
  shows "round_double x = x"
proof (cases "x = 0")
  case True
  then show ?thesis by (simp add: round_double_def)
next
  case False
  have "x / 2 powr of_int (last_bit_exponent x) = of_int m"
    using assms by (metis nonzero_mult_div_cancel_right powr_eq_0_iff zero_neq_numeral)
  then show ?thesis using False assms by (simp add: round_double_def)
qed

lemma dyadic_is_double:
  assumes "0 < n" and "n < 2 ^ 53" and "- 1074 \<le> k"
  shows "round_double (of_int n * 2 powr of_int k) = of_int n * 2 powr of_int k"
proof -
  let ?x = "of_int n * 2 powr of_int k :: real"
  let ?e = "last_bit_exponent ?x"
  have pos: "0 < ?x" using assms(1) by simp
  have "?x < 2 ^ 53 * 2 powr of_int k"
    using assms(2) by (simp add: of_int_less_iff [of n "2 ^ 53", where ?'a = real, simplified])
  also have "\<dots> = 2 powr of_int (k + 53)" by (simp add: powr_add)
  finally have "\<lfloor>log 2 ?x\<rfloor> < k + 53" using pos by (intro floor_log_less)
  then have e: "?e \<le> k"
    using assms(3) pos by (simp add: last_bit_exponent_def)
  have "?x = of_int (n * 2 ^ nat (k - ?e)) * 2 powr of_int ?e"
    using powr_nat_diff [OF e] by simp
  then show ?thesis by (rule round_double_multiple)
qed

lemma round_double_le_powr:
  assumes "0 < x" and "x < 2 powr of_int k" and "- 1021 \<le> k"
  shows "round_double x \<le> 2 powr of_int k"
proof -
  let ?e = "last_bit_exponent x"
  have "\<lfloor>log 2 x\<rfloor> < k" using assms(1,2) by (rule floor_log_less)
  then have e: "?e + 53 \<le> k"
    using assms(1,3) by (simp add: last_bit_exponent_def)
  have "x / 2 powr of_int ?e \<le> of_int (2 ^ 53)"
    using scaled_below [OF assms(1)] by simp
  then have "round_ties_even (x / 2 powr of_int ?e) \<le> 2 ^ 53" by (rule rte_le)
  then have "(of_int (round_ties_even (x / 2 powr of_int ?e)) :: real) \<le> 2 ^ 53"
    by (metis of_int_le_iff of_int_numeral of_int_power)
  then have "round_double x \<le> 2 ^ 53 * 2 powr of_int ?e"
    using assms(1) by (simp add: round_double_def)
  also have "\<dots> = 2 powr of_int (?e + 53)" by (simp add: powr_add)
  also have "\<dots> \<le> 2 powr of_int k" using e by (simp del: of_int_add)
  finally show ?thesis .
qed

lemma exponent_8_16:
  assumes "8 \<le> x" and "x < 16"
  shows "last_bit_exponent x = - 49"
proof -
  have pos: "0 < x" using assms(1) by simp
  have "\<lfloor>log 2 x\<rfloor> < 4"
    using pos assms(2) by (intro floor_log_less) simp_all
  moreover have "3 \<le> \<lfloor>log 2 x\<rfloor>"
    using pos assms(1) by (intro floor_log_ge) simp_all
  ultimately have "\<lfloor>log 2 x\<rfloor> = 3" by linarith
  then show ?thesis using pos by (simp add: last_bit_exponent_def)
qed


lemma powr_neg_int: "(2::real) powr of_int (- int k) = 1 / 2 ^ k"
  by (simp add: powr_minus powr_realpow inverse_eq_divide)

lemma round_double_exponent:
  assumes "x \<noteq> 0" and "last_bit_exponent x = - int k"
  shows "round_double x = of_int (round_ties_even (x * 2 ^ k)) / 2 ^ k"
  unfolding round_double_def assms(2) powr_neg_int using assms(1) by simp

lemma round_double_below_10:
  assumes "0 \<le> x" and "x \<le> 10 - 10 / 2 ^ 53"
  shows "round_double x < 10"
proof -
  consider "x = 0" | "0 < x" "x < 8" | "8 \<le> x" using assms(1) by linarith
  then show ?thesis
  proof cases
    case 1
    then show ?thesis by (simp add: round_double_def)
  next
    case 2
    have "round_double x \<le> 2 powr of_int 3"
      using 2 by (intro round_double_le_powr) simp_all
    then show ?thesis by simp
  next
    case 3
    have lt: "x < 16" using assms(2) by simp
    have "last_bit_exponent x = - int 49" using exponent_8_16 [OF 3 lt] by simp
    with 3 have r: "round_double x = of_int (round_ties_even (x * 2 ^ 49)) / 2 ^ 49"
      by (intro round_double_exponent) simp_all
    have "x * 2 ^ 49 \<le> 10 * 2 ^ 49 - 10 / 2 ^ 4"
      using assms(2) by simp
    then have "x * 2 ^ 49 < of_int (10 * 2 ^ 49 - 1) + 1 / 2" by simp
    then have "round_ties_even (x * 2 ^ 49) \<le> 10 * 2 ^ 49 - 1" by (rule rte_lt_half)
    then have "(of_int (round_ties_even (x * 2 ^ 49)) :: real) \<le> of_int (10 * 2 ^ 49 - 1)"
      by (simp only: of_int_le_iff)
    then have "round_double x \<le> (10 * 2 ^ 49 - 1) / 2 ^ 49"
      unfolding r by (simp add: field_simps)
    then show ?thesis by simp
  qed
qed

lemma double_below_one:
  assumes "is_double r" and "0 \<le> r" and "r < 1"
  shows "r \<le> 1 - 1 / 2 ^ 53"
proof (cases "r < 1 / 2")
  case True
  then show ?thesis by simp
next
  case False
  then have pos: "0 < r" and half: "2 powr of_int (- 1) \<le> r" by simp_all
  have "\<lfloor>log 2 r\<rfloor> < 0"
    using pos assms(3) by (intro floor_log_less) simp_all
  moreover have "- 1 \<le> \<lfloor>log 2 r\<rfloor>"
    using pos half by (rule floor_log_ge)
  ultimately have "\<lfloor>log 2 r\<rfloor> = - 1" by linarith
  then have "last_bit_exponent r = - int 53"
    using pos by (simp add: last_bit_exponent_def)
  with pos have "round_double r = of_int (round_ties_even (r * 2 ^ 53)) / 2 ^ 53"
    by (intro round_double_exponent) simp_all
  moreover define m where "m = round_ties_even (r * 2 ^ 53)"
  ultimately have r: "r = of_int m / 2 ^ 53"
    using assms(1) by (simp add: is_double_def)
  with assms(3) have "(of_int m :: real) < of_int (2 ^ 53)" by (simp add: field_simps)
  then have "m < 2 ^ 53" by (simp only: of_int_less_iff)
  then have "m \<le> 2 ^ 53 - 1" by simp
  then have "(of_int m :: real) \<le> of_int (2 ^ 53 - 1)" by (simp only: of_int_le_iff)
  with r show ?thesis by (simp add: field_simps)
qed

lemma exponent_below_16:
  assumes "0 < x" and "x < 16"
  shows "last_bit_exponent x \<le> - 49"
proof -
  have "\<lfloor>log 2 x\<rfloor> < 4"
    using assms by (intro floor_log_less) simp_all
  then show ?thesis using assms(1) by (simp add: last_bit_exponent_def)
qed

lemma round_double_error:
  assumes "0 \<le> x" and "x < 16"
  shows "\<bar>round_double x - x\<bar> \<le> 1 / 2 ^ 50"
proof (cases "x = 0")
  case True
  then show ?thesis by (simp add: round_double_def)
next
  case False
  with assms(1) have pos: "0 < x" by simp
  let ?u = "(2::real) powr of_int (last_bit_exponent x)"
  let ?y = "x / ?u"
  have u: "0 < ?u" by simp
  have "?u \<le> 2 powr of_int (- int 49)"
    using exponent_below_16 [OF pos assms(2)] by (simp del: of_int_minus)
  then have u49: "?u \<le> 1 / 2 ^ 49" unfolding powr_neg_int .
  have "\<bar>of_int (round_ties_even ?y) - ?y\<bar> \<le> 1 / 2"
    using rte_upper [of ?y] rte_lower [of ?y] by linarith
  then have "\<bar>of_int (round_ties_even ?y) - ?y\<bar> * ?u \<le> 1 / 2 * ?u"
    using u by (intro mult_right_mono) simp_all
  moreover have "round_double x - x = (of_int (round_ties_even ?y) - ?y) * ?u"
    using pos by (simp add: round_double_def left_diff_distrib)
  ultimately have "\<bar>round_double x - x\<bar> \<le> 1 / 2 * ?u"
    using u by (simp add: abs_mult)
  with u49 show ?thesis by simp
qed

lemma round_double_ge_int:
  assumes "0 \<le> x" and "x < 16" and "of_int n \<le> x"
  shows "of_int n \<le> round_double x"
proof (cases "n \<le> 0")
  case True
  then have "(of_int n :: real) \<le> 0" by simp
  with round_double_nonneg [OF assms(1)] show ?thesis by linarith
next
  case False
  then have n: "1 \<le> n" by simp
  then have "(1::real) \<le> of_int n" by simp
  with assms(3) have one: "1 \<le> x" by linarith
  then have pos: "0 < x" by simp
  let ?e = "last_bit_exponent x"
  let ?u = "(2::real) powr of_int ?e"
  have e: "?e \<le> 0" using exponent_below_16 [OF pos assms(2)] by simp
  have one_eq: "of_int (2 ^ nat (0 - ?e)) * ?u = 1"
    using powr_nat_diff [OF e] by simp
  have "of_int (n * 2 ^ nat (0 - ?e)) * ?u = of_int n * (of_int (2 ^ nat (0 - ?e)) * ?u)"
    by (simp only: of_int_mult mult.assoc)
  then have n_eq: "of_int (n * 2 ^ nat (0 - ?e)) * ?u = of_int n"
    by (simp only: one_eq mult_1_right)
  have u: "0 < ?u" by simp
  have "of_int (n * 2 ^ nat (0 - ?e)) \<le> x / ?u"
    using assms(3) u unfolding n_eq [symmetric] by (simp only: pos_le_divide_eq)
  then have "n * 2 ^ nat (0 - ?e) \<le> round_ties_even (x / ?u)" by (rule rte_ge)
  then have "(of_int (n * 2 ^ nat (0 - ?e)) :: real) \<le> of_int (round_ties_even (x / ?u))"
    by (simp only: of_int_le_iff)
  then have "of_int (n * 2 ^ nat (0 - ?e)) * ?u \<le> of_int (round_ties_even (x / ?u)) * ?u"
    using u by (intro mult_right_mono) simp_all
  then show ?thesis
    unfolding n_eq using pos by (simp add: round_double_def)
qed


lemma round_double_fraction:
  assumes "0 < n" and "n < 2 ^ 53" and "k \<le> 1074"
  shows "round_double (of_int n / 2 ^ k) = of_int n / 2 ^ k"
proof -
  have "- 1074 \<le> - int k" using assms(3) by simp
  from dyadic_is_double [OF assms(1,2) this] show ?thesis
    unfolding powr_neg_int by simp
qed

lemma sample_randoms_double: "list_all is_double sample_randoms"
proof -
  have "is_double 0" by (simp add: is_double_def round_double_def)
  moreover have "is_double (1 / 8)"
    using round_double_fraction [of 1 3] by (simp add: is_double_def)
  moreover have "is_double (1 / 4)"
    using round_double_fraction [of 1 2] by (simp add: is_double_def)
  moreover have "is_double (3 / 8)"
    using round_double_fraction [of 3 3] by (simp add: is_double_def)
  moreover have "is_double (7 / 16)"
    using round_double_fraction [of 7 4] by (simp add: is_double_def)
  moreover have "is_double (1 / 2)"
    using round_double_fraction [of 1 1] by (simp add: is_double_def)
  moreover have "is_double (5 / 8)"
    using round_double_fraction [of 5 3] by (simp add: is_double_def)
  moreover have "is_double (3 / 4)"
    using round_double_fraction [of 3 2] by (simp add: is_double_def)
  moreover have "is_double (7 / 8)"
    using round_double_fraction [of 7 3] by (simp add: is_double_def)
  moreover have "is_double (15 / 16)"
    using round_double_fraction [of 15 4] by (simp add: is_double_def)
  ultimately show ?thesis by (simp add: sample_randoms_def)
qed

lemma sample_randoms_index: "map randomIndex sample_randoms = [0, 1, 2, 3, 4, 5, 6, 7, 8, 9]"
proof -
  have r: "round_double 0 = 0" "round_double (5 / 4) = 5 / 4" "round_double (5 / 2) = 5 / 2"
    "round_double (15 / 4) = 15 / 4" "round_double (35 / 8) = 35 / 8" "round_double 5 = 5"
    "round_double (25 / 4) = 25 / 4" "round_double (15 / 2) = 15 / 2"
    "round_double (35 / 4) = 35 / 4" "round_double (75 / 8) = 75 / 8"
    using round_double_fraction [of 5 2] round_double_fraction [of 5 1]
      round_double_fraction [of 15 2] round_double_fraction [of 35 3]
      round_double_fraction [of 5 0] round_double_fraction [of 25 2]
      round_double_fraction [of 15 1] round_double_fraction [of 35 2]
      round_double_fraction [of 75 3]
    by (simp_all add: round_double_def)
  show ?thesis
    by (simp add: sample_randoms_def randomIndex_def times_double_def promptList_length r)
qed

lemma every_index_reachable:
  assumes "i < length promptList"
  shows "is_double (sample_randoms ! i) \<and> 0 \<le> sample_randoms ! i \<and> sample_randoms ! i < 1
         \<and> randomIndex (sample_randoms ! i) = int i"
proof -
  have l: "length sample_randoms = 10" by (simp add: sample_randoms_def)
  have i: "i < 10" using assms by (simp add: promptList_length)
  have "is_double (sample_randoms ! i)"
    using sample_randoms_double i l by (simp add: list_all_length)
  moreover have "list_all (\<lambda>r. 0 \<le> r \<and> r < 1) sample_randoms"
    by (simp add: sample_randoms_def)
  then have "0 \<le> sample_randoms ! i \<and> sample_randoms ! i < 1"
    using i l by (simp add: list_all_length)
  moreover have "randomIndex (sample_randoms ! i) = map randomIndex sample_randoms ! i"
    using i l by simp
  then have "randomIndex (sample_randoms ! i) = [0, 1, 2, 3, 4, 5, 6, 7, 8, 9] ! i"
    unfolding sample_randoms_index .
  then have "randomIndex (sample_randoms ! i) = int i"
    using i by (simp add: nth_Cons' )
  ultimately show ?thesis by blast
qed

lemma exactIndex_interval:
  assumes "i < length promptList"
  shows "{r. 0 \<le> r \<and> r < 1 \<and> exactIndex r = int i} = {real i / 10 ..< (real i + 1) / 10}"
proof -
  have i: "i < 10" using assms by (simp add: promptList_length)
  then have "real i + 1 \<le> 10" by simp
  then show ?thesis
    by (auto simp: exactIndex_def promptList_length floor_eq_iff field_simps)
qed

lemma randomIndex_bounds:
  assumes "is_double r" and "0 \<le> r" and "r < 1"
  shows "0 \<le> randomIndex r" and "randomIndex r < 10"
    and "exactIndex r \<le> randomIndex r" and "randomIndex r \<le> exactIndex r + 1"
    and "\<bar>times_double r 10 - r * 10\<bar> \<le> 1 / 2 ^ 50"
proof -
  let ?x = "r * 10"
  have x0: "0 \<le> ?x" using assms(2) by simp
  have x16: "?x < 16" using assms(3) by simp
  have "?x \<le> 10 - 10 / 2 ^ 53"
    using double_below_one [OF assms] by simp
  with x0 have "round_double ?x < 10" by (rule round_double_below_10)
  then show "randomIndex r < 10"
    by (simp add: randomIndex_def times_double_def promptList_length floor_less_iff)
  show "0 \<le> randomIndex r"
    using round_double_nonneg [OF x0]
    by (simp add: randomIndex_def times_double_def promptList_length)
  have "of_int \<lfloor>?x\<rfloor> \<le> round_double ?x"
    using x0 x16 by (rule round_double_ge_int) simp
  then show "exactIndex r \<le> randomIndex r"
    by (simp add: randomIndex_def exactIndex_def times_double_def promptList_length le_floor_iff)
  show err: "\<bar>times_double r 10 - r * 10\<bar> \<le> 1 / 2 ^ 50"
    unfolding times_double_def using x0 x16 by (rule round_double_error)
  have "round_double ?x \<le> ?x + 1 / 2 ^ 50"
    using err unfolding times_double_def by linarith
  also have "\<dots> < of_int (\<lfloor>?x\<rfloor> + 1) + 1" by simp linarith
  finally have "\<lfloor>round_double ?x\<rfloor> < \<lfloor>?x\<rfloor> + 2"
    by (simp add: floor_less_iff)
  then show "randomIndex r \<le> exactIndex r + 1"
    by (simp add: randomIndex_def exactIndex_def times_double_def promptList_length)
qed


lemma randomIndex_exact:
  assumes "is_double r" and "0 \<le> r" and "r < 1"
  shows "randomIndex r = exactIndex r
         \<or> (randomIndex r = exactIndex r + 1
             \<and> of_int (exactIndex r + 1) - r * 10 \<le> 1 / 2 ^ 50)"
proof (cases "randomIndex r = exactIndex r")
  case True
  then show ?thesis by simp
next
  case False
  with randomIndex_bounds(3,4) [OF assms] have up: "randomIndex r = exactIndex r + 1"
    by linarith
  then have "of_int (exactIndex r + 1) \<le> times_double r 10"
    by (simp add: randomIndex_def promptList_length) linarith
  with randomIndex_bounds(5) [OF assms] have "of_int (exactIndex r + 1) - r * 10 \<le> 1 / 2 ^ 50"
    by linarith
  with up show ?thesis by simp
qed

lemma exponent_2_4:
  assumes "2 \<le> x" and "x < 4"
  shows "last_bit_exponent x = - 51"
proof -
  have pos: "0 < x" using assms(1) by simp
  have "\<lfloor>log 2 x\<rfloor> < 2"
    using pos assms(2) by (intro floor_log_less) simp_all
  moreover have "1 \<le> \<lfloor>log 2 x\<rfloor>"
    using pos assms(1) by (intro floor_log_ge) simp_all
  ultimately have "\<lfloor>log 2 x\<rfloor> = 1" by linarith
  then show ?thesis using pos by (simp add: last_bit_exponent_def)
qed

lemma double_0_3_is_double: "is_double double_0_3"
  using round_double_fraction [of 5404319552844595 54]
  by (simp add: is_double_def double_0_3_def)

lemma double_0_3_product: "times_double double_0_3 10 = 3"
proof -
  let ?x = "double_0_3 * 10"
  have "2 \<le> ?x" and "?x < 4" by (simp_all add: double_0_3_def)
  then have "last_bit_exponent ?x = - int 51" using exponent_2_4 by simp
  moreover have "?x \<noteq> 0" by (simp add: double_0_3_def)
  ultimately have r: "round_double ?x = of_int (round_ties_even (?x * 2 ^ 51)) / 2 ^ 51"
    by (rule round_double_exponent [rotated])
  have p: "?x * 2 ^ 51 = 27021597764222975 / 4"
    by (simp add: double_0_3_def)
  have t: "round_ties_even (27021597764222975 / 4) = 6755399441055744"
    by (simp add: round_ties_even_def Let_def)
  show ?thesis unfolding times_double_def r p t by simp
qed

lemma double_0_3_index:
  "exactIndex double_0_3 = 2" "randomIndex double_0_3 = 3"
  by (simp_all add: randomIndex_def exactIndex_def promptList_length double_0_3_product)
     (simp add: double_0_3_def)


lemma randomIndex_inside:
  assumes "is_double r" and "0 \<le> r" and "r < 1"
    and "real i / 10 \<le> r" and "r < (real i + 1 - 1 / 2 ^ 50) / 10"
  shows "randomIndex r = int i"
proof -
  have "real i \<le> r * 10" and "r * 10 < real i + 1 - 1 / 2 ^ 50"
    using assms(4,5) by (simp_all add: field_simps)
  moreover from this have e: "exactIndex r = int i"
    by (simp add: exactIndex_def promptList_length floor_eq_iff)
  ultimately have "\<not> of_int (exactIndex r + 1) - r * 10 \<le> 1 / 2 ^ 50"
    by simp
  with randomIndex_exact [OF assms(1-3)] e show ?thesis by simp
qed

lemma randomIndex_outside:
  assumes "is_double r" and "0 \<le> r" and "r < 1" and "randomIndex r = int i"
  shows "(real i - 1 / 2 ^ 50) / 10 \<le> r" and "r < (real i + 1) / 10"
proof -
  have f: "of_int (exactIndex r) \<le> r * 10" "r * 10 < of_int (exactIndex r) + 1"
    by (simp_all add: exactIndex_def promptList_length)
  from randomIndex_exact [OF assms(1-3)] assms(4)
  consider "exactIndex r = int i"
    | "exactIndex r + 1 = int i" "of_int (exactIndex r + 1) - r * 10 \<le> 1 / 2 ^ 50"
    by auto
  then have "real i - 1 / 2 ^ 50 \<le> r * 10 \<and> r * 10 < real i + 1"
  proof cases
    case 1
    with f show ?thesis by simp
  next
    case 2
    from 2(1) have "of_int (exactIndex r) = real i - 1"
      by (metis add_diff_cancel_right' of_int_1 of_int_diff of_int_of_nat_eq)
    with f 2(2) show ?thesis by simp
  qed
  then show "(real i - 1 / 2 ^ 50) / 10 \<le> r" and "r < (real i + 1) / 10"
    by (simp_all add: field_simps)
qed

lemma selectPrompt_index:
  assumes "is_double r" and "0 \<le> r" and "r < 1" and "i < length promptList"
  shows "selectPrompt r = Some (promptList ! i) \<longleftrightarrow> randomIndex r = int i"
proof -
  have lo: "0 \<le> randomIndex r" and hi: "randomIndex r < int (length promptList)"
    using randomIndex_bounds(1,2) [OF assms(1-3)] by (simp_all add: promptList_length)
  then have "selectPrompt r = Some (promptList ! nat (randomIndex r))"
    by (simp add: selectPrompt_def element_at_def)
  moreover have "promptList ! nat (randomIndex r) = promptList ! i \<longleftrightarrow> nat (randomIndex r) = i"
    using lo hi assms(4) promptList_distinct by (intro nth_eq_iff_index_eq) simp_all
  ultimately show ?thesis using lo by auto
qed

lemma grid_double:
  assumes "n \<le> 53" and "k < 2 ^ n"
  shows "is_double (real k / 2 ^ n)" and "0 \<le> real k / 2 ^ n" and "real k / 2 ^ n < 1"
proof -
  show "0 \<le> real k / 2 ^ n" by simp
  show "real k / 2 ^ n < 1"
    using assms(2) by (simp add: of_nat_less_iff [of k "2 ^ n", where ?'a = real, simplified])
  show "is_double (real k / 2 ^ n)"
  proof (cases "k = 0")
    case True
    then show ?thesis by (simp add: is_double_def round_double_def)
  next
    case False
    have "(2::nat) ^ n \<le> 2 ^ 53" using assms(1) by (intro power_increasing) simp_all
    with assms(2) have "k < 2 ^ 53" by linarith
    then have u: "int k < 2 ^ 53" by (metis of_nat_less_iff of_nat_numeral of_nat_power)
    have p: "0 < int k" using False by simp
    have l: "n \<le> 1074" using assms(1) by simp
    have "round_double (of_int (int k) / 2 ^ n) = of_int (int k) / 2 ^ n"
      using p u l by (rule round_double_fraction)
    then show ?thesis by (simp add: is_double_def)
  qed
qed

lemma grid_counts:
  assumes "n \<le> 53"
  shows "(\<Sum>i<10. card {k. k < 2 ^ n \<and> randomIndex (real k / 2 ^ n) = int i}) = 2 ^ n"
proof -
  let ?S = "{..<(2::nat) ^ n}"
  let ?g = "\<lambda>k. nat (randomIndex (real k / 2 ^ n))"
  have b: "0 \<le> randomIndex (real k / 2 ^ n) \<and> randomIndex (real k / 2 ^ n) < 10"
    if "k < 2 ^ n" for k
    using randomIndex_bounds(1,2) [OF grid_double [OF assms that]] by simp
  then have "?g ` ?S \<subseteq> {..<10}" by (auto simp: nat_less_iff)
  then have "(\<Sum>y<10. \<Sum>x\<in>{x. x \<in> ?S \<and> ?g x = y}. 1) = (\<Sum>x\<in>?S. (1::nat))"
    by (intro sum.group) simp_all
  moreover have "{x. x \<in> ?S \<and> ?g x = y} = {k. k < 2 ^ n \<and> randomIndex (real k / 2 ^ n) = int y}"
    for y
    using b by auto
  ultimately show ?thesis by simp
qed

lemma grid_53_not_uniform:
  "\<not> (\<exists>c. \<forall>i<10. card {k. k < 2 ^ 53 \<and> randomIndex (real k / 2 ^ 53) = int i} = c)"
proof
  assume "\<exists>c. \<forall>i<10. card {k. k < 2 ^ 53 \<and> randomIndex (real k / 2 ^ 53) = int i} = c"
  then obtain c
    where "\<forall>i<10. card {k. k < 2 ^ 53 \<and> randomIndex (real k / 2 ^ 53) = int i} = c"
    by blast
  then have "(\<Sum>i<10. card {k. k < 2 ^ 53 \<and> randomIndex (real k / 2 ^ 53) = int i})
             = (\<Sum>i<(10::nat). c)"
    by (intro sum.cong) simp_all
  with grid_counts [of 53] have "10 * c = (9007199254740992::nat)" by simp
  then show False by presburger
qed

text \<open>
  Claim C8, as amended.  For every double \<open>r\<close> of \<open>[0, 1)\<close> the computed index is within the
  bounds of the list and the selector returns the element of the list at that index; the list
  is not empty and has no duplicates, and every entry is returned for some double.  The
  entries are equally likely up to the rounding of the product: a double of
  \<open>[i / 10, (i + 1 - 2\<^sup>-\<^sup>5\<^sup>0) / 10)\<close> selects entry \<open>i\<close>, and a double that selects entry \<open>i\<close> lies
  in \<open>[(i - 2\<^sup>-\<^sup>5\<^sup>0) / 10, (i + 1) / 10)\<close>.
\<close>

theorem prompt_selection:
  "(is_double r \<and> 0 \<le> r \<and> r < 1 \<longrightarrow>
      0 \<le> randomIndex r \<and> randomIndex r < int (length promptList)
      \<and> selectPrompt r = Some (promptList ! nat (randomIndex r))
      \<and> promptList ! nat (randomIndex r) \<in> set promptList
      \<and> (real i / 10 \<le> r \<and> r < (real i + 1 - 1 / 2 ^ 50) / 10 \<longrightarrow>
           selectPrompt r = Some (promptList ! i))
      \<and> (i < length promptList \<and> selectPrompt r = Some (promptList ! i) \<longrightarrow>
           (real i - 1 / 2 ^ 50) / 10 \<le> r \<and> r < (real i + 1) / 10))
   \<and> (i < length promptList \<longrightarrow>
        (\<exists>r. is_double r \<and> 0 \<le> r \<and> r < 1 \<and> selectPrompt r = Some (promptList ! i)))
   \<and> distinct promptList \<and> promptList \<noteq> []"
proof (intro conjI impI)
  assume "is_double r \<and> 0 \<le> r \<and> r < 1"
  then have r: "is_double r" "0 \<le> r" "r < 1" by simp_all
  show lo: "0 \<le> randomIndex r" by (rule randomIndex_bounds(1) [OF r])
  show hi: "randomIndex r < int (length promptList)"
    using randomIndex_bounds(2) [OF r] by (simp add: promptList_length)
  from lo hi show s: "selectPrompt r = Some (promptList ! nat (randomIndex r))"
    by (simp add: selectPrompt_def element_at_def)
  from lo hi show "promptList ! nat (randomIndex r) \<in> set promptList"
    by (intro nth_mem) linarith
  {
    assume "real i / 10 \<le> r \<and> r < (real i + 1 - 1 / 2 ^ 50) / 10"
    then have "randomIndex r = int i"
      using randomIndex_inside [OF r] by blast
    with s show "selectPrompt r = Some (promptList ! i)" by simp
  }
  {
    assume "i < length promptList \<and> selectPrompt r = Some (promptList ! i)"
    then have "randomIndex r = int i"
      using selectPrompt_index [OF r] by blast
    from randomIndex_outside [OF r this]
    show "(real i - 1 / 2 ^ 50) / 10 \<le> r" and "r < (real i + 1) / 10" .
  }
next
  assume i: "i < length promptList"
  from every_index_reachable [OF i] i
  have "selectPrompt (sample_randoms ! i) = Some (promptList ! i)"
    by (simp add: selectPrompt_def element_at_def)
  with every_index_reachable [OF i]
  show "\<exists>r. is_double r \<and> 0 \<le> r \<and> r < 1 \<and> selectPrompt r = Some (promptList ! i)"
    by blast
next
  show "distinct promptList" by (rule promptList_distinct)
  show "promptList \<noteq> []" by (simp add: promptList_def)
qed

theorem prompt_selection_witness:
  "is_double (1 / 2) \<and> randomIndex (1 / 2) = 5
   \<and> selectPrompt (1 / 2)
       = Some (asc ''Write a Python script that calculates the factorial of a number.'')
   \<and> (5 - 1 / 2 ^ 50) / 10 \<le> (1 / 2 :: real) \<and> (1 / 2 :: real) < (5 + 1) / 10"
proof -
  have d: "is_double (1 / 2)"
    using round_double_fraction [of 1 1] by (simp add: is_double_def)
  have l: "(5::nat) < length promptList" by (simp add: promptList_length)
  have n: "promptList ! 5 = asc ''Write a Python script that calculates the factorial of a number.''"
    by (simp add: promptList_def)
  have b: "real 5 / 10 \<le> 1 / 2 \<and> (1 / 2 :: real) < (real 5 + 1 - 1 / 2 ^ 50) / 10"
    by simp
  have h: "is_double (1 / 2) \<and> 0 \<le> (1 / 2 :: real) \<and> (1 / 2 :: real) < 1"
    using d by simp
  from prompt_selection [of "1 / 2" 5] h b
  have s: "selectPrompt (1 / 2) = Some (promptList ! 5)"
    by blast
  from s l selectPrompt_index [of "1 / 2" 5] d have x: "randomIndex (1 / 2) = 5"
    by simp
  with d x s n show ?thesis by simp
qed

text \<open>
  Claim C8, against the code.  The claim gives every entry the same probability, which for
  this selector means that entry \<open>i\<close> is returned exactly for the values of \<open>[i / 10, (i + 1) / 10)\<close>.
  The double nearest to \<open>0.3\<close> lies in \<open>[2 / 10, 3 / 10)\<close>, but its product with 10 rounds to
  3 and the selector returns entry 3, not entry 2.  And when \<^verbatim>\<open>Math.random()\<close> is one of the
  \<open>2\<^sup>5\<^sup>3\<close> multiples of \<open>2\<^sup>-\<^sup>5\<^sup>3\<close> in \<open>[0, 1)\<close>, each as likely as the other, the ten entries cannot
  be returned equally often: the ten counts add up to \<open>2\<^sup>5\<^sup>3\<close>, which is not a multiple of 10.
\<close>

theorem prompt_selection_not_uniform:
  "is_double double_0_3 \<and> 2 / 10 \<le> double_0_3 \<and> double_0_3 < 3 / 10
   \<and> exactIndex double_0_3 = 2 \<and> randomIndex double_0_3 = 3
   \<and> selectPrompt double_0_3
       = Some (asc ''Write a CSS rule that creates a hover effect for buttons.'')
   \<and> promptList ! 2 = asc ''Create an HTML page with a simple form and a submit button.''
   \<and> \<not> (\<exists>c. \<forall>i<10. card {k. k < 2 ^ 53 \<and> randomIndex (real k / 2 ^ 53) = int i} = c)"
proof -
  have "2 / 10 \<le> double_0_3" and "double_0_3 < 3 / 10"
    by (simp_all add: double_0_3_def)
  moreover have "selectPrompt double_0_3
       = Some (asc ''Write a CSS rule that creates a hover effect for buttons.'')"
    by (simp add: selectPrompt_def element_at_def double_0_3_index promptList_def)
  moreover have "promptList ! 2 = asc ''Create an HTML page with a simple form and a submit button.''"
    by (simp add: promptList_def)
  ultimately show ?thesis
    using double_0_3_is_double double_0_3_index grid_53_not_uniform by blast
qed

end
